theory Spec2Isabelle
  imports Complex_Main
begin

section \<open>Values\<close>

text \<open>
  A GDScript Variant, as far as \<^verbatim>\<open>scripts/godot_operations.gd\<close> handles them: what
  \<^verbatim>\<open>JSON.parse\<close> delivers (null, booleans, numbers, strings, arrays, dictionaries with
  string keys, in insertion order) and the four native structured types that
  \<^verbatim>\<open>_convert_property_value\<close> builds. GDScript's int and float are both \<open>VNum\<close>: the
  script never tells them apart.
\<close>

datatype variant =
    VNull
  | VBool bool
  | VNum real
  | VStr string
  | VArr "variant list"
  | VDict "(string \<times> variant) list"
  | VVector2 real real
  | VVector3 real real real
  | VColor real real real real
  | VRect2 real real real real

type_synonym dict = "(string \<times> variant) list"

text \<open>A runtime error of the script: the running function is abandoned.\<close>

datatype script_error = ScriptError string

definition bindE :: "script_error + 'a \<Rightarrow> ('a \<Rightarrow> script_error + 'b) \<Rightarrow> script_error + 'b" where
  "bindE m f = (case m of Inl e \<Rightarrow> Inl e | Inr x \<Rightarrow> f x)"

text \<open>\<^verbatim>\<open>d.has(key)\<close> and \<^verbatim>\<open>d.get(key, default)\<close> of a Dictionary.\<close>

definition has :: "dict \<Rightarrow> string \<Rightarrow> bool" where
  "has d k = (map_of d k \<noteq> None)"

definition dict_get :: "dict \<Rightarrow> string \<Rightarrow> variant \<Rightarrow> variant" where
  "dict_get d k dflt = (case map_of d k of None \<Rightarrow> dflt | Some v \<Rightarrow> v)"

text \<open>
  Uses of a Variant that need a type. \<^verbatim>\<open>is_empty()\<close> exists on String, Array and
  Dictionary; a String is needed by \<^verbatim>\<open>load\<close>, by \<^verbatim>\<open>"text" + x\<close>, by a parameter
  typed \<^verbatim>\<open>String\<close>, by \<^verbatim>\<open>get_node_or_null\<close> and by \<^verbatim>\<open>get\<close>/\<^verbatim>\<open>set\<close>; \<^verbatim>\<open>for x in v\<close>
  runs over the keys of a Dictionary, the elements of an Array, the characters of a
  String and the numbers below a number; \<^verbatim>\<open>v[k]\<close> reads a Dictionary at a key it has.
  Every other use is a runtime error. (The script indexes only what it iterates, with
  the element as index, and needs the element as a property name next to it; on an
  Array at a number that raises at the index or at the name, with nothing done in
  between, and \<open>index\<close> raises at once.)
\<close>

definition is_empty :: "variant \<Rightarrow> script_error + bool" where
  "is_empty v =
     (case v of
        VStr s \<Rightarrow> Inr (s = [])
      | VArr xs \<Rightarrow> Inr (xs = [])
      | VDict d \<Rightarrow> Inr (d = [])
      | _ \<Rightarrow> Inl (ScriptError ''Invalid call. Nonexistent function is_empty''))"

definition as_String :: "variant \<Rightarrow> script_error + string" where
  "as_String v =
     (case v of
        VStr s \<Rightarrow> Inr s
      | _ \<Rightarrow> Inl (ScriptError ''Invalid type: a String is expected''))"

definition as_Dictionary :: "variant \<Rightarrow> script_error + dict" where
  "as_Dictionary v =
     (case v of
        VDict d \<Rightarrow> Inr d
      | _ \<Rightarrow> Inl (ScriptError ''Invalid type: a Dictionary is expected''))"

definition iterate :: "variant \<Rightarrow> script_error + variant list" where
  "iterate v =
     (case v of
        VDict d \<Rightarrow> Inr (map (\<lambda>kv. VStr (fst kv)) d)
      | VArr xs \<Rightarrow> Inr xs
      | VStr s \<Rightarrow> Inr (map (\<lambda>c. VStr [c]) s)
      | VNum r \<Rightarrow> Inr (map (\<lambda>i. VNum (real i)) [0 ..< nat \<lceil>r\<rceil>])
      | _ \<Rightarrow> Inl (ScriptError ''Unable to iterate''))"

definition index :: "variant \<Rightarrow> variant \<Rightarrow> script_error + variant" where
  "index v k =
     (case (v, k) of
        (VDict d, VStr key) \<Rightarrow>
          (case map_of d key of
             None \<Rightarrow> Inl (ScriptError ''Invalid access to property or key'')
           | Some x \<Rightarrow> Inr x)
      | _ \<Rightarrow> Inl (ScriptError ''Invalid access to property or key''))"

section \<open>Scene trees, resources and the project on disk\<close>

datatype loop_mode = LOOP_NONE | LOOP_LINEAR

text \<open>
  An Animation: its length, its loop mode and its value tracks, each with its path and
  the keys (time, value) in the order \<^verbatim>\<open>track_insert_key\<close> was called.
\<close>

datatype animation =
  Animation (anim_length: real) (anim_loop_mode: loop_mode)
    (anim_tracks: "(string \<times> (real \<times> variant) list) list")

text \<open>
  A node: name, class, the property values the engine holds for it, the attached
  script's resource path, the animation libraries (of an AnimationPlayer) by key, and
  the children in order.
\<close>

datatype node =
  Node (node_name: string) (node_class: string) (node_props: dict)
    (node_script: "string option")
    (node_libs: "(string \<times> (string \<times> animation) list) list")
    (node_children: "node list")

datatype resource = Resource (res_class: string) (res_props: dict)

text \<open>A PackedScene holds the packed tree, or nothing when nothing was packed.\<close>

type_synonym packed_scene = "node option"

datatype disk_file =
    SceneFile packed_scene
  | ScriptFile string
  | ResourceFile resource
  | ConfigFile "((string \<times> string) \<times> variant) list"

datatype dir_entry = FileEntry string | DirEntry string "dir_entry list option"

text \<open>
  What the script does to the outside and to objects, in order: loading and saving of
  resources, directory creation, opening a file for writing, and \<^verbatim>\<open>set\<close> on an object.
\<close>

datatype event =
    Load string
  | Save string
  | MakeDir string
  | OpenWrite string
  | SetProp string variant

text \<open>
  The project: the files by path, the directory listing \<^verbatim>\<open>DirAccess\<close> reports under
  \<^verbatim>\<open>res://\<close> (\<open>None\<close> where a directory cannot be opened), and the trace of events.
\<close>

record world =
  files :: "string \<rightharpoonup> disk_file"
  listing :: "dir_entry list option"
  trace :: "event list"

definition emit :: "event \<Rightarrow> world \<Rightarrow> world" where
  "emit e w = w\<lparr>trace := trace w @ [e]\<rparr>"

section \<open>The engine\<close>

datatype instance_kind = NodeInstance | ResourceInstance | OtherInstance

text \<open>
  What the script calls in the engine and what is not in the repository. Each field is a
  parameter of the model; the theorems hold for every engine unless they say otherwise.
  \<^item> \<open>to_float\<close>: the float the engine stores for a Variant where a float is expected (a
    constructor argument such as in \<^verbatim>\<open>Vector2(x, y)\<close>, \<^verbatim>\<open>animation.length\<close>, a key time);
    \<open>None\<close> when it refuses the value, which is a runtime error of the script.
  \<^item> \<open>booleanize\<close>: the truth value of a Variant in \<^verbatim>\<open>if v\<close>; \<open>str\<close>: \<^verbatim>\<open>str(v)\<close>.
  \<^item> \<open>class_exists\<close>, \<open>classdb_instantiate\<close>: \<^verbatim>\<open>ClassDB\<close>; the latter says what kind of
    object \<^verbatim>\<open>ClassDB.instantiate\<close> returns, \<open>None\<close> for null. \<open>inherits c d\<close>: an object
    of class \<open>c\<close> passes \<^verbatim>\<open>is d\<close>.
  \<^item> \<open>get_prop\<close>, \<open>property_names\<close>, \<open>set_prop\<close>, \<open>res_set_prop\<close>: \<^verbatim>\<open>get\<close>, the names in
    \<^verbatim>\<open>get_property_list()\<close> and \<^verbatim>\<open>set\<close> of an object. \<^verbatim>\<open>set\<close> returns nothing to the
    script; what it does to the object is the engine's.
  \<^item> \<open>valid_name\<close>: the name a node gets by \<^verbatim>\<open>node.name = s\<close>; \<open>child_name\<close>: the name
    \<^verbatim>\<open>add_child\<close> leaves a child with under that parent.
  \<^item> \<open>resolve_path\<close>: the position (child indices from the node asked, \<open>[]\<close> for
    that node itself) of the node a path resolves to, \<open>None\<close> for null.
  \<^item> \<open>get_path\<close>, \<open>get_path_to\<close>: \<^verbatim>\<open>str(node.get_path())\<close> and
    \<^verbatim>\<open>str(root.get_path_to(node))\<close> of the node at a position under a root.
  \<^item> \<open>pack_error\<close>, \<open>save_error\<close>: the error code of \<^verbatim>\<open>PackedScene.pack\<close> and of
    \<^verbatim>\<open>ResourceSaver.save\<close> at a path, 0 for \<^verbatim>\<open>OK\<close>; \<open>open_write_ok\<close>: whether
    \<^verbatim>\<open>FileAccess.open(path, WRITE)\<close> returns a file.
  \<^item> \<open>get_base_dir\<close>, \<open>globalize_path\<close>, \<open>path_join\<close>: the String and ProjectSettings
    functions of these names.
  \<^item> \<open>lib_add_animation\<close>: \<^verbatim>\<open>AnimationLibrary.add_animation\<close> on the animations of a
    library.
  \<^item> \<open>json_parse\<close> (\<open>Inl\<close> the error message), \<open>json_stringify\<close>: \<^verbatim>\<open>JSON\<close>;
    \<open>version_info\<close>: \<^verbatim>\<open>Engine.get_version_info()\<close>.
\<close>

record engine =
  to_float :: "variant \<Rightarrow> real option"
  booleanize :: "variant \<Rightarrow> bool"
  str :: "variant \<Rightarrow> string"
  class_exists :: "string \<Rightarrow> bool"
  classdb_instantiate :: "string \<Rightarrow> instance_kind option"
  inherits :: "string \<Rightarrow> string \<Rightarrow> bool"
  get_prop :: "node \<Rightarrow> string \<Rightarrow> variant"
  property_names :: "node \<Rightarrow> string list"
  set_prop :: "node \<Rightarrow> string \<Rightarrow> variant \<Rightarrow> node"
  res_set_prop :: "resource \<Rightarrow> string \<Rightarrow> variant \<Rightarrow> resource"
  valid_name :: "string \<Rightarrow> string"
  child_name :: "node \<Rightarrow> string \<Rightarrow> string"
  resolve_path :: "node \<Rightarrow> string \<Rightarrow> nat list option"
  get_path :: "node \<Rightarrow> nat list \<Rightarrow> string"
  get_path_to :: "node \<Rightarrow> nat list \<Rightarrow> string"
  pack_error :: "node \<Rightarrow> nat"
  save_error :: "world \<Rightarrow> string \<Rightarrow> nat"
  open_write_ok :: "world \<Rightarrow> string \<Rightarrow> bool"
  get_base_dir :: "string \<Rightarrow> string"
  globalize_path :: "string \<Rightarrow> string"
  path_join :: "string \<Rightarrow> string \<Rightarrow> string"
  lib_add_animation ::
    "(string \<times> animation) list \<Rightarrow> string \<Rightarrow> animation \<Rightarrow> (string \<times> animation) list"
  json_parse :: "string \<Rightarrow> string + variant"
  json_stringify :: "variant \<Rightarrow> string"
  version_info :: variant

section \<open>Value converter\<close>

definition as_float :: "engine \<Rightarrow> variant \<Rightarrow> script_error + real" where
  "as_float eng v =
     (case to_float eng v of
        None \<Rightarrow> Inl (ScriptError ''Invalid type: a float is expected'')
      | Some r \<Rightarrow> Inr r)"

definition Vector2 :: "engine \<Rightarrow> variant \<Rightarrow> variant \<Rightarrow> script_error + variant" where
  "Vector2 eng x y =
     bindE (as_float eng x) (\<lambda>fx.
     bindE (as_float eng y) (\<lambda>fy. Inr (VVector2 fx fy)))"

definition Vector3 :: "engine \<Rightarrow> variant \<Rightarrow> variant \<Rightarrow> variant \<Rightarrow> script_error + variant" where
  "Vector3 eng x y z =
     bindE (as_float eng x) (\<lambda>fx.
     bindE (as_float eng y) (\<lambda>fy.
     bindE (as_float eng z) (\<lambda>fz. Inr (VVector3 fx fy fz))))"

definition Color :: "engine \<Rightarrow> variant \<Rightarrow> variant \<Rightarrow> variant \<Rightarrow> variant \<Rightarrow> script_error + variant" where
  "Color eng r g b a =
     bindE (as_float eng r) (\<lambda>fr.
     bindE (as_float eng g) (\<lambda>fg.
     bindE (as_float eng b) (\<lambda>fb.
     bindE (as_float eng a) (\<lambda>fa. Inr (VColor fr fg fb fa)))))"

definition Rect2 :: "engine \<Rightarrow> variant \<Rightarrow> variant \<Rightarrow> variant \<Rightarrow> variant \<Rightarrow> script_error + variant" where
  "Rect2 eng x y w h =
     bindE (as_float eng x) (\<lambda>fx.
     bindE (as_float eng y) (\<lambda>fy.
     bindE (as_float eng w) (\<lambda>fw.
     bindE (as_float eng h) (\<lambda>fh. Inr (VRect2 fx fy fw fh)))))"

text \<open>
  \<^verbatim>\<open>_convert_property_value\<close>: a Dictionary with a \<^verbatim>\<open>_type\<close> key naming one of the four
  structured types is rebuilt as that type; everything else falls through to
  \<^verbatim>\<open>return value\<close>.
\<close>

definition convert_property_value :: "engine \<Rightarrow> variant \<Rightarrow> script_error + variant" where
  "convert_property_value eng v =
     (case v of
        VDict d \<Rightarrow>
          if has d ''_type'' then
            (let t = dict_get d ''_type'' VNull in
             if t = VStr ''Vector2'' then
               Vector2 eng (dict_get d ''x'' (VNum 0)) (dict_get d ''y'' (VNum 0))
             else if t = VStr ''Vector3'' then
               Vector3 eng (dict_get d ''x'' (VNum 0)) (dict_get d ''y'' (VNum 0))
                 (dict_get d ''z'' (VNum 0))
             else if t = VStr ''Color'' then
               Color eng (dict_get d ''r'' (VNum 1)) (dict_get d ''g'' (VNum 1))
                 (dict_get d ''b'' (VNum 1)) (dict_get d ''a'' (VNum 1))
             else if t = VStr ''Rect2'' then
               Rect2 eng (dict_get d ''x'' (VNum 0)) (dict_get d ''y'' (VNum 0))
                 (dict_get d ''w'' (VNum 0)) (dict_get d ''h'' (VNum 0))
             else Inr v)
          else Inr v
      | _ \<Rightarrow> Inr v)"

section \<open>Helpers of the operations\<close>

text \<open>
  The functions of the script keep their names without the leading underscore. An
  operation takes the parameters and the project and returns the result Dictionary and
  the project after it, or the runtime error that abandoned it.
\<close>

type_synonym outcome = "script_error + (dict \<times> world)"

definition failed :: "string \<Rightarrow> dict" where
  "failed msg = [(''success'', VBool False), (''error'', VStr msg)]"

definition quote :: string where
  "quote = [CHR 0x27]"

definition dq :: string where
  "dq = [CHR 0x22]"

definition nl :: string where
  "nl = [CHR 0x0A]"

definition tab :: string where
  "tab = [CHR 0x09]"

definition begins_with :: "string \<Rightarrow> string \<Rightarrow> bool" where
  "begins_with s p = (take (length p) s = p)"

definition ends_with :: "string \<Rightarrow> string \<Rightarrow> bool" where
  "ends_with s p = (length p \<le> length s \<and> drop (length s - length p) s = p)"

text \<open>\<^verbatim>\<open>a.is_empty() or b.is_empty()\<close>: the second test runs only when the first is false.\<close>

definition is_empty_or :: "variant \<Rightarrow> variant \<Rightarrow> script_error + bool" where
  "is_empty_or a b = bindE (is_empty a) (\<lambda>ea. if ea then Inr True else is_empty b)"

subsection \<open>Nodes by position\<close>

fun node_at :: "node \<Rightarrow> nat list \<Rightarrow> node option" where
  "node_at n [] = Some n"
| "node_at n (i # p) =
     (if i < length (node_children n) then node_at (node_children n ! i) p else None)"

definition with_children :: "node \<Rightarrow> node list \<Rightarrow> node" where
  "with_children n cs =
     Node (node_name n) (node_class n) (node_props n) (node_script n) (node_libs n) cs"

text \<open>The tree with the node at a position replaced by \<open>f\<close> of it (mutation in place).\<close>

fun update_at :: "(node \<Rightarrow> node) \<Rightarrow> node \<Rightarrow> nat list \<Rightarrow> node" where
  "update_at f n [] = f n"
| "update_at f n (i # p) =
     (if i < length (node_children n)
      then with_children n ((node_children n)[i := update_at f (node_children n ! i) p])
      else n)"

text \<open>\<^verbatim>\<open>node.get_parent().remove_child(node)\<close> for the node at a position below the root.\<close>

fun remove_child :: "node \<Rightarrow> nat list \<Rightarrow> node" where
  "remove_child n [] = n"
| "remove_child n [i] = with_children n (take i (node_children n) @ drop (Suc i) (node_children n))"
| "remove_child n (i # p) =
     (if i < length (node_children n)
      then with_children n ((node_children n)[i := remove_child (node_children n ! i) p])
      else n)"

definition set_name :: "engine \<Rightarrow> node \<Rightarrow> string \<Rightarrow> node" where
  "set_name eng n s =
     Node (valid_name eng s) (node_class n) (node_props n) (node_script n) (node_libs n)
       (node_children n)"

definition set_script :: "node \<Rightarrow> string \<Rightarrow> node" where
  "set_script n path =
     Node (node_name n) (node_class n) (node_props n) (Some path) (node_libs n)
       (node_children n)"

definition set_libs :: "node \<Rightarrow> (string \<times> (string \<times> animation) list) list \<Rightarrow> node" where
  "set_libs n libs =
     Node (node_name n) (node_class n) (node_props n) (node_script n) libs (node_children n)"

definition add_child :: "engine \<Rightarrow> node \<Rightarrow> node \<Rightarrow> node" where
  "add_child eng parent child =
     with_children parent
       (node_children parent @
        [Node (child_name eng parent (node_name child)) (node_class child) (node_props child)
           (node_script child) (node_libs child) (node_children child)])"

text \<open>
  \<^verbatim>\<open>root.get_node_or_null(path)\<close>: the position and the node the engine resolves the
  path to, null also when the position it names is not in the tree.
\<close>

definition get_node_or_null :: "engine \<Rightarrow> node \<Rightarrow> string \<Rightarrow> (nat list \<times> node) option" where
  "get_node_or_null eng scene_root path =
     (case resolve_path eng scene_root path of
        None \<Rightarrow> None
      | Some pos \<Rightarrow> (case node_at scene_root pos of None \<Rightarrow> None | Some n \<Rightarrow> Some (pos, n)))"

subsection \<open>Loading and saving\<close>

text \<open>\<^verbatim>\<open>load(path) as PackedScene\<close> and \<^verbatim>\<open>load(path) as GDScript\<close>: null for a missing file
  and for a file of another kind.\<close>

definition load_PackedScene :: "world \<Rightarrow> string \<Rightarrow> packed_scene option \<times> world" where
  "load_PackedScene w path =
     (case files w path of
        Some (SceneFile ps) \<Rightarrow> (Some ps, emit (Load path) w)
      | _ \<Rightarrow> (None, emit (Load path) w))"

definition load_GDScript :: "world \<Rightarrow> string \<Rightarrow> string option \<times> world" where
  "load_GDScript w path =
     (case files w path of
        Some (ScriptFile src) \<Rightarrow> (Some path, emit (Load path) w)
      | _ \<Rightarrow> (None, emit (Load path) w))"

text \<open>
  \<^verbatim>\<open>packed_scene.instantiate()\<close>. A scene with nothing packed gives null, and every
  operation then calls a method on null before anything else happens.
\<close>

definition instantiate :: "packed_scene \<Rightarrow> script_error + node" where
  "instantiate ps =
     (case ps of
        None \<Rightarrow> Inl (ScriptError ''Cannot call method on a null value'')
      | Some scene_root \<Rightarrow> Inr scene_root)"

definition pack :: "engine \<Rightarrow> node \<Rightarrow> packed_scene" where
  "pack eng scene_root = (if pack_error eng scene_root = 0 then Some scene_root else None)"

text \<open>\<^verbatim>\<open>ResourceSaver.save(resource, path)\<close>: the error code; the file is written on
  \<^verbatim>\<open>OK\<close> only.\<close>

definition ResourceSaver_save :: "engine \<Rightarrow> disk_file \<Rightarrow> string \<Rightarrow> world \<Rightarrow> nat \<times> world" where
  "ResourceSaver_save eng f path w =
     (let err = save_error eng w path; w1 = emit (Save path) w
      in (err, if err = 0 then w1\<lparr>files := (files w1)(path \<mapsto> f)\<rparr> else w1))"

text \<open>
  The three lines every mutating scene operation ends with:
  \<^verbatim>\<open>PackedScene.new()\<close>, \<^verbatim>\<open>pack(scene_root)\<close> (its result is not looked at) and
  \<^verbatim>\<open>ResourceSaver.save(new_packed_scene, scene_path)\<close>.
\<close>

definition pack_and_save :: "engine \<Rightarrow> node \<Rightarrow> string \<Rightarrow> world \<Rightarrow> nat \<times> world" where
  "pack_and_save eng scene_root scene_path w =
     ResourceSaver_save eng (SceneFile (pack eng scene_root)) scene_path w"

text \<open>The directory of a file is created before the file is written.\<close>

definition ensure_dir :: "engine \<Rightarrow> string \<Rightarrow> world \<Rightarrow> world" where
  "ensure_dir eng path w =
     (let dir_path = get_base_dir eng path
      in if dir_path \<noteq> [] then emit (MakeDir (globalize_path eng dir_path)) w else w)"

subsection \<open>Type registry\<close>

definition node_types :: "string list" where
  "node_types =
    [''Node'', ''Node2D'', ''Node3D'', ''Sprite2D'', ''Sprite3D'', ''Camera2D'',
     ''Camera3D'', ''CharacterBody2D'', ''CharacterBody3D'', ''RigidBody2D'',
     ''RigidBody3D'', ''StaticBody2D'', ''StaticBody3D'', ''Area2D'', ''Area3D'',
     ''CollisionShape2D'', ''CollisionShape3D'', ''MeshInstance3D'',
     ''DirectionalLight3D'', ''PointLight2D'', ''OmniLight3D'', ''SpotLight3D'',
     ''AnimationPlayer'', ''AnimatedSprite2D'', ''AudioStreamPlayer'',
     ''AudioStreamPlayer2D'', ''AudioStreamPlayer3D'', ''Control'', ''Label'',
     ''Button'', ''TextureRect'', ''Panel'', ''CanvasLayer'', ''ParallaxBackground'',
     ''ParallaxLayer'', ''TileMap'', ''Path2D'', ''Path3D'', ''PathFollow2D'',
     ''PathFollow3D'', ''Timer'', ''GPUParticles2D'', ''GPUParticles3D'',
     ''CPUParticles2D'', ''CPUParticles3D'', ''WorldEnvironment'',
     ''NavigationRegion2D'', ''NavigationRegion3D'']"

definition resource_types :: "string list" where
  "resource_types =
    [''CircleShape2D'', ''RectangleShape2D'', ''CapsuleShape2D'', ''BoxShape3D'',
     ''SphereShape3D'', ''CapsuleShape3D'', ''StandardMaterial3D'', ''ShaderMaterial'',
     ''CanvasItemMaterial'', ''BoxMesh'', ''SphereMesh'', ''CapsuleMesh'',
     ''CylinderMesh'', ''PlaneMesh'', ''QuadMesh'', ''Environment'', ''Curve'',
     ''Curve2D'', ''Curve3D'', ''Gradient'', ''GradientTexture1D'',
     ''GradientTexture2D'', ''NoiseTexture2D'', ''Animation'', ''AnimationLibrary'',
     ''SpriteFrames'', ''LabelSettings'', ''StyleBoxFlat'', ''StyleBoxTexture'']"

text \<open>\<^verbatim>\<open>T.new()\<close>: a node of class \<open>T\<close> with no name, no script and no children.\<close>

definition Node_new :: "string \<Rightarrow> node" where
  "Node_new cls = Node [] cls [] None [] []"

text \<open>
  \<^verbatim>\<open>_create_node_of_type\<close>: the curated names first, then \<^verbatim>\<open>ClassDB\<close>. The function is
  declared to return a Node, so an object of another kind from \<^verbatim>\<open>ClassDB.instantiate\<close>
  is a runtime error.
\<close>

definition create_node_of_type :: "engine \<Rightarrow> string \<Rightarrow> script_error + node option" where
  "create_node_of_type eng type_name =
     (if type_name \<in> set node_types then Inr (Some (Node_new type_name))
      else if class_exists eng type_name then
        (case classdb_instantiate eng type_name of
           None \<Rightarrow> Inr None
         | Some NodeInstance \<Rightarrow> Inr (Some (Node_new type_name))
         | Some _ \<Rightarrow> Inl (ScriptError ''Trying to return a value that is not a Node''))
      else Inr None)"

definition create_resource_of_type :: "engine \<Rightarrow> string \<Rightarrow> resource option" where
  "create_resource_of_type eng type_name =
     (if type_name \<in> set resource_types then Some (Resource type_name [])
      else if class_exists eng type_name then
        (case classdb_instantiate eng type_name of
           Some ResourceInstance \<Rightarrow> Some (Resource type_name [])
         | _ \<Rightarrow> None)
      else None)"

section \<open>Scene operations\<close>

definition create_scene :: "engine \<Rightarrow> dict \<Rightarrow> world \<Rightarrow> outcome" where
  "create_scene eng params w =
     (let scene_path = dict_get params ''scene_path'' (VStr []);
          root_type = dict_get params ''root_type'' (VStr ''Node2D'');
          root_name = dict_get params ''root_name'' (VStr ''Root'')
      in
      bindE (is_empty scene_path) (\<lambda>empty.
      if empty then Inr (failed ''scene_path is required'', w) else
      bindE (as_String root_type) (\<lambda>type_name.
      bindE (create_node_of_type eng type_name) (\<lambda>created.
      case created of
        None \<Rightarrow> Inr (failed (''Unknown node type: '' @ type_name), w)
      | Some n \<Rightarrow>
          bindE (as_String root_name) (\<lambda>name.
          let root_node = set_name eng n name in
          if pack_error eng root_node \<noteq> 0 then Inr (failed ''Failed to pack scene'', w) else
          bindE (as_String scene_path) (\<lambda>path.
          case ResourceSaver_save eng (SceneFile (Some root_node)) path (ensure_dir eng path w) of
            (result, w') \<Rightarrow>
              if result \<noteq> 0
              then Inr (failed (''Failed to save scene: '' @ str eng (VNum (real result))), w')
              else Inr ([(''success'', VBool True),
                         (''message'', VStr (''Created scene at '' @ path)),
                         (''scene_path'', scene_path),
                         (''root_type'', root_type),
                         (''root_name'', root_name)], w')))))))"

text \<open>
  The property loop of \<^verbatim>\<open>_add_node\<close>: a key is set only when \<^verbatim>\<open>get\<close> gives a value for it
  or the property list has it, and the value is passed to \<^verbatim>\<open>set\<close> as it is.
\<close>

fun add_node_properties ::
  "engine \<Rightarrow> variant \<Rightarrow> variant list \<Rightarrow> node \<Rightarrow> world \<Rightarrow> script_error + (node \<times> world)" where
  "add_node_properties eng properties [] new_node w = Inr (new_node, w)"
| "add_node_properties eng properties (k # ks) new_node w =
     bindE (as_String k) (\<lambda>prop_name.
     if get_prop eng new_node prop_name \<noteq> VNull
        \<or> prop_name \<in> set (property_names eng new_node)
     then
       bindE (index properties k) (\<lambda>v.
       add_node_properties eng properties ks (set_prop eng new_node prop_name v)
         (emit (SetProp prop_name v) w))
     else add_node_properties eng properties ks new_node w)"

definition add_node :: "engine \<Rightarrow> dict \<Rightarrow> world \<Rightarrow> outcome" where
  "add_node eng params w =
     (let scene_path = dict_get params ''scene_path'' (VStr []);
          parent_path = dict_get params ''parent_path'' (VStr ''.'');
          node_type = dict_get params ''node_type'' (VStr ''Node'');
          node_name = dict_get params ''node_name'' (VStr ''NewNode'');
          properties = dict_get params ''properties'' (VDict [])
      in
      bindE (is_empty scene_path) (\<lambda>empty.
      if empty then Inr (failed ''scene_path is required'', w) else
      bindE (as_String scene_path) (\<lambda>path.
      case load_PackedScene w path of
        (None, w1) \<Rightarrow> Inr (failed (''Failed to load scene: '' @ path), w1)
      | (Some packed_scene, w1) \<Rightarrow>
          bindE (instantiate packed_scene) (\<lambda>scene_root.
          bindE (as_String parent_path) (\<lambda>parent.
          case (if parent = ''.'' then Some ([], scene_root)
                else get_node_or_null eng scene_root parent) of
            None \<Rightarrow> Inr (failed (''Parent node not found: '' @ parent), w1)
          | Some (parent_pos, parent_node) \<Rightarrow>
              bindE (as_String node_type) (\<lambda>type_name.
              bindE (create_node_of_type eng type_name) (\<lambda>created.
              case created of
                None \<Rightarrow> Inr (failed (''Unknown node type: '' @ type_name), w1)
              | Some n \<Rightarrow>
                  bindE (as_String node_name) (\<lambda>name.
                  bindE (iterate properties) (\<lambda>keys.
                  bindE (add_node_properties eng properties keys (set_name eng n name) w1)
                    (\<lambda>(new_node, w2).
                  case pack_and_save eng
                         (update_at (\<lambda>p. add_child eng p new_node) scene_root parent_pos)
                         path w2 of
                    (result, w3) \<Rightarrow>
                      if result \<noteq> 0 then Inr (failed ''Failed to save scene'', w3)
                      else Inr ([(''success'', VBool True),
                                 (''message'', VStr (''Added '' @ type_name @ '' node '' @ quote
                                    @ name @ quote @ '' to '' @ parent)),
                                 (''node_path'', VStr (if parent \<noteq> ''.''
                                    then parent @ ''/'' @ name else name))], w3)))))))))))"

definition remove_node :: "engine \<Rightarrow> dict \<Rightarrow> world \<Rightarrow> outcome" where
  "remove_node eng params w =
     (let scene_path = dict_get params ''scene_path'' (VStr []);
          node_path = dict_get params ''node_path'' (VStr [])
      in
      bindE (is_empty_or scene_path node_path) (\<lambda>empty.
      if empty then Inr (failed ''scene_path and node_path are required'', w) else
      bindE (as_String scene_path) (\<lambda>path.
      case load_PackedScene w path of
        (None, w1) \<Rightarrow> Inr (failed (''Failed to load scene: '' @ path), w1)
      | (Some packed_scene, w1) \<Rightarrow>
          bindE (instantiate packed_scene) (\<lambda>scene_root.
          bindE (as_String node_path) (\<lambda>target.
          case get_node_or_null eng scene_root target of
            None \<Rightarrow> Inr (failed (''Node not found: '' @ target), w1)
          | Some (pos, node) \<Rightarrow>
              if pos = [] then Inr (failed ''Cannot remove root node'', w1)
              else
                (case pack_and_save eng (remove_child scene_root pos) path w1 of
                   (result, w2) \<Rightarrow>
                     if result \<noteq> 0 then Inr (failed ''Failed to save scene'', w2)
                     else Inr ([(''success'', VBool True),
                                (''message'', VStr (''Removed node: '' @ target))], w2)))))))"

text \<open>
  The property loop of \<^verbatim>\<open>_modify_node\<close>: every value goes through the converter and is
  passed to \<^verbatim>\<open>set\<close>; the key joins \<^verbatim>\<open>modified_props\<close> whatever \<^verbatim>\<open>set\<close> did.
\<close>

fun modify_node_properties ::
  "engine \<Rightarrow> variant \<Rightarrow> variant list \<Rightarrow> node \<Rightarrow> world \<Rightarrow> variant list
     \<Rightarrow> script_error + (node \<times> world \<times> variant list)" where
  "modify_node_properties eng properties [] node w modified_props =
     Inr (node, w, modified_props)"
| "modify_node_properties eng properties (k # ks) node w modified_props =
     bindE (index properties k) (\<lambda>raw.
     bindE (convert_property_value eng raw) (\<lambda>v.
     bindE (as_String k) (\<lambda>prop_name.
     modify_node_properties eng properties ks (set_prop eng node prop_name v)
       (emit (SetProp prop_name v) w) (modified_props @ [k]))))"

definition modify_node :: "engine \<Rightarrow> dict \<Rightarrow> world \<Rightarrow> outcome" where
  "modify_node eng params w =
     (let scene_path = dict_get params ''scene_path'' (VStr []);
          node_path = dict_get params ''node_path'' (VStr []);
          properties = dict_get params ''properties'' (VDict [])
      in
      bindE (is_empty_or scene_path node_path) (\<lambda>empty.
      if empty then Inr (failed ''scene_path and node_path are required'', w) else
      bindE (as_String scene_path) (\<lambda>path.
      case load_PackedScene w path of
        (None, w1) \<Rightarrow> Inr (failed (''Failed to load scene: '' @ path), w1)
      | (Some packed_scene, w1) \<Rightarrow>
          bindE (instantiate packed_scene) (\<lambda>scene_root.
          bindE (as_String node_path) (\<lambda>target.
          case (if target \<noteq> ''.'' then get_node_or_null eng scene_root target
                else Some ([], scene_root)) of
            None \<Rightarrow> Inr (failed (''Node not found: '' @ target), w1)
          | Some (pos, node) \<Rightarrow>
              bindE (iterate properties) (\<lambda>keys.
              bindE (modify_node_properties eng properties keys node w1 [])
                (\<lambda>(node', w2, modified_props).
              case pack_and_save eng (update_at (\<lambda>old. node') scene_root pos) path w2 of
                (result, w3) \<Rightarrow>
                  if result \<noteq> 0 then Inr (failed ''Failed to save scene'', w3)
                  else Inr ([(''success'', VBool True),
                             (''message'', VStr (''Modified properties on '' @ target)),
                             (''modified_properties'', VArr modified_props)], w3))))))))"

text \<open>
  \<^verbatim>\<open>_serialize_node_tree\<close> and \<^verbatim>\<open>_collect_node_paths\<close>, with the position of the node
  under the scene root in place of the node reference (the unused \<^verbatim>\<open>depth\<close> is left out).
\<close>

fun serialize_node_tree :: "engine \<Rightarrow> node \<Rightarrow> nat list \<Rightarrow> node \<Rightarrow> variant"
  and serialize_children :: "engine \<Rightarrow> node \<Rightarrow> nat list \<Rightarrow> nat \<Rightarrow> node list \<Rightarrow> variant list" where
  "serialize_node_tree eng scene_root pos (Node name cls props script libs children) =
     VDict ([(''name'', VStr name), (''type'', VStr cls),
             (''path'', VStr (get_path eng scene_root pos))]
            @ (case script of None \<Rightarrow> [] | Some path \<Rightarrow> [(''script'', VStr path)])
            @ (if serialize_children eng scene_root pos 0 children \<noteq> []
               then [(''children'', VArr (serialize_children eng scene_root pos 0 children))]
               else []))"
| "serialize_children eng scene_root pos i [] = []"
| "serialize_children eng scene_root pos i (c # cs) =
     serialize_node_tree eng scene_root (pos @ [i]) c
     # serialize_children eng scene_root pos (Suc i) cs"

fun collect_node_paths :: "engine \<Rightarrow> node \<Rightarrow> nat list \<Rightarrow> node \<Rightarrow> variant list"
  and collect_children :: "engine \<Rightarrow> node \<Rightarrow> nat list \<Rightarrow> nat \<Rightarrow> node list \<Rightarrow> variant list" where
  "collect_node_paths eng scene_root pos (Node name cls props script libs children) =
     VDict [(''path'', VStr (if get_path_to eng scene_root pos = [] \<or> get_path_to eng scene_root pos = ''.''
                             then ''.'' else get_path_to eng scene_root pos)),
            (''type'', VStr cls), (''name'', VStr name)]
     # collect_children eng scene_root pos 0 children"
| "collect_children eng scene_root pos i [] = []"
| "collect_children eng scene_root pos i (c # cs) =
     collect_node_paths eng scene_root (pos @ [i]) c
     @ collect_children eng scene_root pos (Suc i) cs"

definition read_scene :: "engine \<Rightarrow> dict \<Rightarrow> world \<Rightarrow> outcome" where
  "read_scene eng params w =
     (let scene_path = dict_get params ''scene_path'' (VStr []) in
      bindE (is_empty scene_path) (\<lambda>empty.
      if empty then Inr (failed ''scene_path is required'', w) else
      bindE (as_String scene_path) (\<lambda>path.
      case load_PackedScene w path of
        (None, w1) \<Rightarrow> Inr (failed (''Failed to load scene: '' @ path), w1)
      | (Some packed_scene, w1) \<Rightarrow>
          bindE (instantiate packed_scene) (\<lambda>scene_root.
          Inr ([(''success'', VBool True),
                (''scene_path'', scene_path),
                (''tree'', serialize_node_tree eng scene_root [] scene_root)], w1)))))"

definition list_nodes :: "engine \<Rightarrow> dict \<Rightarrow> world \<Rightarrow> outcome" where
  "list_nodes eng params w =
     (let scene_path = dict_get params ''scene_path'' (VStr []) in
      bindE (is_empty scene_path) (\<lambda>empty.
      if empty then Inr (failed ''scene_path is required'', w) else
      bindE (as_String scene_path) (\<lambda>path.
      case load_PackedScene w path of
        (None, w1) \<Rightarrow> Inr (failed (''Failed to load scene: '' @ path), w1)
      | (Some packed_scene, w1) \<Rightarrow>
          bindE (instantiate packed_scene) (\<lambda>scene_root.
          Inr ([(''success'', VBool True),
                (''nodes'', VArr (collect_node_paths eng scene_root [] scene_root))], w1)))))"

section \<open>Script operations\<close>

definition character_2d_template :: string where
  "character_2d_template =
       ''const SPEED = 300.0'' @ nl
     @ ''const JUMP_VELOCITY = -400.0'' @ nl
     @ nl
     @ ''func _physics_process(delta: float) -> void:'' @ nl
     @ tab @ ''# Add gravity'' @ nl
     @ tab @ ''if not is_on_floor():'' @ nl
     @ tab @ tab @ ''velocity += get_gravity() * delta'' @ nl
     @ nl
     @ tab @ ''# Handle jump'' @ nl
     @ tab @ ''if Input.is_action_just_pressed('' @ dq @ ''ui_accept'' @ dq @ '') and is_on_floor():'' @ nl
     @ tab @ tab @ ''velocity.y = JUMP_VELOCITY'' @ nl
     @ nl
     @ tab @ ''# Get input direction'' @ nl
     @ tab @ ''var direction := Input.get_axis('' @ dq @ ''ui_left'' @ dq @ '', '' @ dq @ ''ui_right'' @ dq @ '')'' @ nl
     @ tab @ ''if direction:'' @ nl
     @ tab @ tab @ ''velocity.x = direction * SPEED'' @ nl
     @ tab @ ''else:'' @ nl
     @ tab @ tab @ ''velocity.x = move_toward(velocity.x, 0, SPEED)'' @ nl
     @ nl
     @ tab @ ''move_and_slide()'' @ nl"

definition character_3d_template :: string where
  "character_3d_template =
       ''const SPEED = 5.0'' @ nl
     @ ''const JUMP_VELOCITY = 4.5'' @ nl
     @ nl
     @ ''func _physics_process(delta: float) -> void:'' @ nl
     @ tab @ ''# Add gravity'' @ nl
     @ tab @ ''if not is_on_floor():'' @ nl
     @ tab @ tab @ ''velocity += get_gravity() * delta'' @ nl
     @ nl
     @ tab @ ''# Handle jump'' @ nl
     @ tab @ ''if Input.is_action_just_pressed('' @ dq @ ''ui_accept'' @ dq @ '') and is_on_floor():'' @ nl
     @ tab @ tab @ ''velocity.y = JUMP_VELOCITY'' @ nl
     @ nl
     @ tab @ ''# Get input direction'' @ nl
     @ tab @ ''var input_dir := Input.get_vector('' @ dq @ ''ui_left'' @ dq @ '', '' @ dq @ ''ui_right'' @ dq @ '', '' @ dq @ ''ui_up'' @ dq @ '', '' @ dq @ ''ui_down'' @ dq @ '')'' @ nl
     @ tab @ ''var direction := (transform.basis * Vector3(input_dir.x, 0, input_dir.y)).normalized()'' @ nl
     @ tab @ ''if direction:'' @ nl
     @ tab @ tab @ ''velocity.x = direction.x * SPEED'' @ nl
     @ tab @ tab @ ''velocity.z = direction.z * SPEED'' @ nl
     @ tab @ ''else:'' @ nl
     @ tab @ tab @ ''velocity.x = move_toward(velocity.x, 0, SPEED)'' @ nl
     @ tab @ tab @ ''velocity.z = move_toward(velocity.z, 0, SPEED)'' @ nl
     @ nl
     @ tab @ ''move_and_slide()'' @ nl"

definition default_template :: string where
  "default_template =
       ''func _ready() -> void:'' @ nl
     @ tab @ ''pass'' @ nl
     @ nl
     @ ''func _process(delta: float) -> void:'' @ nl
     @ tab @ ''pass'' @ nl"

definition generate_script_template :: "string \<Rightarrow> string \<Rightarrow> string \<Rightarrow> string" where
  "generate_script_template extends_type class_name_str template =
     (if class_name_str \<noteq> [] then ''class_name '' @ class_name_str @ nl else [])
     @ ''extends '' @ extends_type @ nl @ nl
     @ (if template = ''empty'' then ''# Empty script'' @ nl @ ''pass'' @ nl
        else if template = ''character_2d'' then character_2d_template
        else if template = ''character_3d'' then character_3d_template
        else default_template)"

definition create_script :: "engine \<Rightarrow> dict \<Rightarrow> world \<Rightarrow> outcome" where
  "create_script eng params w =
     (let script_path = dict_get params ''script_path'' (VStr []);
          extends_type = dict_get params ''extends'' (VStr ''Node'');
          class_name_str = dict_get params ''class_name'' (VStr []);
          content = dict_get params ''content'' (VStr []);
          template = dict_get params ''template'' (VStr ''default'')
      in
      bindE (is_empty script_path) (\<lambda>empty.
      if empty then Inr (failed ''script_path is required'', w) else
      bindE (is_empty content) (\<lambda>no_content.
      bindE (if \<not> no_content then Inr content
             else bindE (as_String extends_type) (\<lambda>e.
                  bindE (as_String class_name_str) (\<lambda>c.
                  bindE (as_String template) (\<lambda>t.
                  Inr (VStr (generate_script_template e c t)))))) (\<lambda>script_content.
      bindE (as_String script_path) (\<lambda>path.
      let w1 = emit (OpenWrite path) (ensure_dir eng path w) in
      if \<not> open_write_ok eng (ensure_dir eng path w) path
      then Inr (failed ''Failed to create script file'', w1)
      else
        bindE (as_String script_content) (\<lambda>text.
        Inr ([(''success'', VBool True),
              (''message'', VStr (''Created script at '' @ path)),
              (''script_path'', script_path)],
             w1\<lparr>files := (files w1)(path \<mapsto> ScriptFile text)\<rparr>)))))))"

definition attach_script :: "engine \<Rightarrow> dict \<Rightarrow> world \<Rightarrow> outcome" where
  "attach_script eng params w =
     (let scene_path = dict_get params ''scene_path'' (VStr []);
          node_path = dict_get params ''node_path'' (VStr ''.'');
          script_path = dict_get params ''script_path'' (VStr [])
      in
      bindE (is_empty_or scene_path script_path) (\<lambda>empty.
      if empty then Inr (failed ''scene_path and script_path are required'', w) else
      bindE (as_String scene_path) (\<lambda>path.
      case load_PackedScene w path of
        (None, w1) \<Rightarrow> Inr (failed (''Failed to load scene: '' @ path), w1)
      | (Some packed_scene, w1) \<Rightarrow>
          bindE (as_String script_path) (\<lambda>spath.
          case load_GDScript w1 spath of
            (None, w2) \<Rightarrow> Inr (failed (''Failed to load script: '' @ spath), w2)
          | (Some script, w2) \<Rightarrow>
              bindE (instantiate packed_scene) (\<lambda>scene_root.
              bindE (as_String node_path) (\<lambda>target.
              case (if target \<noteq> ''.'' then get_node_or_null eng scene_root target
                    else Some ([], scene_root)) of
                None \<Rightarrow> Inr (failed (''Node not found: '' @ target), w2)
              | Some (pos, node) \<Rightarrow>
                  (case pack_and_save eng
                          (update_at (\<lambda>n. set_script n script) scene_root pos) path w2 of
                     (result, w3) \<Rightarrow>
                       if result \<noteq> 0 then Inr (failed ''Failed to save scene'', w3)
                       else Inr ([(''success'', VBool True),
                                  (''message'', VStr (''Attached script '' @ spath @ '' to ''
                                     @ target))], w3))))))))"

section \<open>Animation operations\<close>

fun first_index :: "('a \<Rightarrow> bool) \<Rightarrow> 'a list \<Rightarrow> nat option" where
  "first_index P [] = None"
| "first_index P (x # xs) = (if P x then Some 0 else map_option Suc (first_index P xs))"

text \<open>
  \<^verbatim>\<open>library.add_animation(name, animation)\<close> on the library under the key \<^verbatim>\<open>""\<close> of a
  player, which is created and added to the player when it has none.
\<close>

definition add_to_default_library :: "engine \<Rightarrow> node \<Rightarrow> string \<Rightarrow> animation \<Rightarrow> node" where
  "add_to_default_library eng anim_player name animation =
     (case first_index (\<lambda>kl. fst kl = []) (node_libs anim_player) of
        Some i \<Rightarrow>
          set_libs anim_player
            ((node_libs anim_player)
               [i := ([], lib_add_animation eng (snd (node_libs anim_player ! i)) name animation)])
      | None \<Rightarrow>
          set_libs anim_player
            (node_libs anim_player @ [([], lib_add_animation eng [] name animation)]))"

definition create_animation :: "engine \<Rightarrow> dict \<Rightarrow> world \<Rightarrow> outcome" where
  "create_animation eng params w =
     (let scene_path = dict_get params ''scene_path'' (VStr []);
          node_path = dict_get params ''node_path'' (VStr ''.'');
          animation_name = dict_get params ''animation_name'' (VStr ''default'');
          duration = dict_get params ''duration'' (VNum 1);
          loop = dict_get params ''loop'' (VBool False)
      in
      bindE (is_empty scene_path) (\<lambda>empty.
      if empty then Inr (failed ''scene_path is required'', w) else
      bindE (as_String scene_path) (\<lambda>path.
      case load_PackedScene w path of
        (None, w1) \<Rightarrow> Inr (failed (''Failed to load scene: '' @ path), w1)
      | (Some packed_scene, w1) \<Rightarrow>
          bindE (instantiate packed_scene) (\<lambda>scene_root.
          bindE (as_String node_path) (\<lambda>target.
          case (if target \<noteq> ''.'' then get_node_or_null eng scene_root target
                else Some ([], scene_root)) of
            None \<Rightarrow> Inr (failed (''Node not found: '' @ target), w1)
          | Some (pos, target_node) \<Rightarrow>
              (let found = first_index (\<lambda>child. inherits eng (node_class child) ''AnimationPlayer'')
                             (node_children target_node);
                   target_node1 =
                     (case found of
                        Some i \<Rightarrow> target_node
                      | None \<Rightarrow> add_child eng target_node
                                  (set_name eng (Node_new ''AnimationPlayer'') ''AnimationPlayer''));
                   player_index =
                     (case found of Some i \<Rightarrow> i | None \<Rightarrow> length (node_children target_node))
               in
               bindE (as_float eng duration) (\<lambda>len.
               let animation =
                     Animation len (if booleanize eng loop then LOOP_LINEAR else LOOP_NONE) []
               in
               bindE (as_String animation_name) (\<lambda>name.
               case pack_and_save eng
                      (update_at (\<lambda>old.
                         update_at (\<lambda>anim_player.
                           add_to_default_library eng anim_player name animation)
                           target_node1 [player_index])
                         scene_root pos)
                      path w1 of
                 (result, w2) \<Rightarrow>
                   if result \<noteq> 0 then Inr (failed ''Failed to save scene'', w2)
                   else Inr ([(''success'', VBool True),
                              (''message'', VStr (''Created animation '' @ quote @ name @ quote
                                 @ '' with duration '' @ str eng duration @ ''s''))], w2)))))))))"

text \<open>
  \<^verbatim>\<open>anim_player.get_animation(name)\<close>: an animation is known to the player by its key
  in the library under \<^verbatim>\<open>""\<close> and by \<^verbatim>\<open>library/key\<close> in any other library. The result
  is where the animation is: the index of its library and its index there.
\<close>

definition animation_key :: "string \<Rightarrow> string \<Rightarrow> string" where
  "animation_key library k = (if library = [] then k else library @ ''/'' @ k)"

fun get_animation ::
  "(string \<times> (string \<times> animation) list) list \<Rightarrow> string \<Rightarrow> (nat \<times> nat) option" where
  "get_animation [] name = None"
| "get_animation (l # ls) name =
     (case first_index (\<lambda>ka. animation_key (fst l) (fst ka) = name) (snd l) of
        Some j \<Rightarrow> Some (0, j)
      | None \<Rightarrow> map_option (\<lambda>ij. (Suc (fst ij), snd ij)) (get_animation ls name))"

text \<open>The keyframe loop of \<^verbatim>\<open>_add_animation_track\<close>: keys in the order given.\<close>

fun insert_keys ::
  "engine \<Rightarrow> variant list \<Rightarrow> (real \<times> variant) list \<Rightarrow> script_error + (real \<times> variant) list" where
  "insert_keys eng [] keys = Inr keys"
| "insert_keys eng (kf # kfs) keys =
     bindE (as_Dictionary kf) (\<lambda>d.
     bindE (convert_property_value eng (dict_get d ''value'' VNull)) (\<lambda>v.
     bindE (as_float eng (dict_get d ''time'' (VNum 0))) (\<lambda>time.
     insert_keys eng kfs (keys @ [(time, v)]))))"

definition add_track :: "string \<Rightarrow> (real \<times> variant) list \<Rightarrow> animation \<Rightarrow> animation" where
  "add_track track_path keys a =
     Animation (anim_length a) (anim_loop_mode a) (anim_tracks a @ [(track_path, keys)])"

definition update_animation :: "(animation \<Rightarrow> animation) \<Rightarrow> nat \<times> nat \<Rightarrow> node \<Rightarrow> node" where
  "update_animation f ij anim_player =
     (let libs = node_libs anim_player; l = libs ! fst ij; ka = snd l ! snd ij
      in set_libs anim_player (libs[fst ij := (fst l, (snd l)[snd ij := (fst ka, f (snd ka))])]))"

definition add_animation_track :: "engine \<Rightarrow> dict \<Rightarrow> world \<Rightarrow> outcome" where
  "add_animation_track eng params w =
     (let scene_path = dict_get params ''scene_path'' (VStr []);
          animation_player_path = dict_get params ''animation_player_path'' (VStr []);
          animation_name = dict_get params ''animation_name'' (VStr ''default'');
          target_node_path = dict_get params ''target_node_path'' (VStr []);
          property = dict_get params ''property'' (VStr []);
          keyframes = dict_get params ''keyframes'' (VArr [])
      in
      bindE (is_empty_or scene_path animation_player_path) (\<lambda>empty.
      if empty then Inr (failed ''scene_path and animation_player_path are required'', w) else
      bindE (as_String scene_path) (\<lambda>path.
      case load_PackedScene w path of
        (None, w1) \<Rightarrow> Inr (failed (''Failed to load scene: '' @ path), w1)
      | (Some packed_scene, w1) \<Rightarrow>
          bindE (instantiate packed_scene) (\<lambda>scene_root.
          bindE (as_String animation_player_path) (\<lambda>player_path.
          case (case get_node_or_null eng scene_root player_path of
                  None \<Rightarrow> None
                | Some (pos, n) \<Rightarrow>
                    if inherits eng (node_class n) ''AnimationPlayer'' then Some (pos, n)
                    else None) of
            None \<Rightarrow> Inr (failed (''AnimationPlayer not found: '' @ player_path), w1)
          | Some (pos, anim_player) \<Rightarrow>
              bindE (as_String animation_name) (\<lambda>name.
              case get_animation (node_libs anim_player) name of
                None \<Rightarrow> Inr (failed (''Animation not found: '' @ name), w1)
              | Some ij \<Rightarrow>
                  bindE (as_String target_node_path) (\<lambda>target.
                  bindE (as_String property) (\<lambda>prop.
                  bindE (iterate keyframes) (\<lambda>kfs.
                  bindE (insert_keys eng kfs []) (\<lambda>keys.
                  case pack_and_save eng
                         (update_at (update_animation (add_track (target @ '':'' @ prop) keys) ij)
                            scene_root pos)
                         path w1 of
                    (result, w2) \<Rightarrow>
                      if result \<noteq> 0 then Inr (failed ''Failed to save scene'', w2)
                      else Inr ([(''success'', VBool True),
                                 (''message'', VStr (''Added animation track for '' @ prop
                                    @ '' on '' @ target))], w2)))))))))))"

section \<open>Resource and project operations\<close>

fun set_resource_properties ::
  "engine \<Rightarrow> variant \<Rightarrow> variant list \<Rightarrow> resource \<Rightarrow> world \<Rightarrow> script_error + (resource \<times> world)" where
  "set_resource_properties eng properties [] resource w = Inr (resource, w)"
| "set_resource_properties eng properties (k # ks) resource w =
     bindE (index properties k) (\<lambda>raw.
     bindE (convert_property_value eng raw) (\<lambda>v.
     bindE (as_String k) (\<lambda>prop_name.
     set_resource_properties eng properties ks (res_set_prop eng resource prop_name v)
       (emit (SetProp prop_name v) w))))"

definition create_resource :: "engine \<Rightarrow> dict \<Rightarrow> world \<Rightarrow> outcome" where
  "create_resource eng params w =
     (let resource_path = dict_get params ''resource_path'' (VStr []);
          resource_type = dict_get params ''resource_type'' (VStr []);
          properties = dict_get params ''properties'' (VDict [])
      in
      bindE (is_empty_or resource_path resource_type) (\<lambda>empty.
      if empty then Inr (failed ''resource_path and resource_type are required'', w) else
      bindE (as_String resource_type) (\<lambda>type_name.
      case create_resource_of_type eng type_name of
        None \<Rightarrow> Inr (failed (''Unknown resource type: '' @ type_name), w)
      | Some r \<Rightarrow>
          bindE (iterate properties) (\<lambda>keys.
          bindE (set_resource_properties eng properties keys r w) (\<lambda>(resource, w1).
          bindE (as_String resource_path) (\<lambda>path.
          case ResourceSaver_save eng (ResourceFile resource) path (ensure_dir eng path w1) of
            (result, w2) \<Rightarrow>
              if result \<noteq> 0 then Inr (failed ''Failed to save resource'', w2)
              else Inr ([(''success'', VBool True),
                         (''message'', VStr (''Created '' @ type_name @ '' at '' @ path))],
                        w2)))))))"

text \<open>\<^verbatim>\<open>config.get_value(section, key, default)\<close> of a loaded ConfigFile.\<close>

definition get_value ::
  "((string \<times> string) \<times> variant) list \<Rightarrow> string \<Rightarrow> string \<Rightarrow> variant \<Rightarrow> variant" where
  "get_value config sec k dflt = (case map_of config (sec, k) of None \<Rightarrow> dflt | Some v \<Rightarrow> v)"

definition get_project_info :: "engine \<Rightarrow> dict \<Rightarrow> world \<Rightarrow> outcome" where
  "get_project_info eng params w =
     (case files w ''res://project.godot'' of
        Some (ConfigFile config) \<Rightarrow>
          Inr ([(''success'', VBool True),
                (''project_name'', get_value config ''application'' ''config/name'' (VStr ''Unknown'')),
                (''main_scene'', get_value config ''application'' ''run/main_scene'' (VStr [])),
                (''godot_version'', version_info eng),
                (''project_path'', VStr (globalize_path eng ''res://''))],
               emit (Load ''res://project.godot'') w)
      | _ \<Rightarrow> Inr (failed ''Failed to load project.godot'', emit (Load ''res://project.godot'') w))"

text \<open>
  \<^verbatim>\<open>_scan_for_files\<close> over the listing of a directory: hidden entries and the
  \<^verbatim>\<open>addons\<close> directory are skipped, a file is taken when one of the extensions ends
  its name.
\<close>

fun scan_for_files :: "engine \<Rightarrow> string \<Rightarrow> string list \<Rightarrow> dir_entry list option \<Rightarrow> string list"
  and scan_entries :: "engine \<Rightarrow> string \<Rightarrow> string list \<Rightarrow> dir_entry list \<Rightarrow> string list" where
  "scan_for_files eng path extensions None = []"
| "scan_for_files eng path extensions (Some entries) = scan_entries eng path extensions entries"
| "scan_entries eng path extensions [] = []"
| "scan_entries eng path extensions (FileEntry file_name # es) =
     (if begins_with file_name ''.'' then []
      else if list_ex (ends_with file_name) extensions
      then [path_join eng path file_name] else [])
     @ scan_entries eng path extensions es"
| "scan_entries eng path extensions (DirEntry file_name sub # es) =
     (if begins_with file_name ''.'' then []
      else if file_name \<noteq> ''addons''
      then scan_for_files eng (path_join eng path file_name) extensions sub else [])
     @ scan_entries eng path extensions es"

definition list_scenes :: "engine \<Rightarrow> dict \<Rightarrow> world \<Rightarrow> outcome" where
  "list_scenes eng params w =
     Inr ([(''success'', VBool True),
           (''scenes'', VArr (map VStr
              (scan_for_files eng ''res://'' [''.tscn'', ''.scn''] (listing w))))], w)"

definition list_scripts :: "engine \<Rightarrow> dict \<Rightarrow> world \<Rightarrow> outcome" where
  "list_scripts eng params w =
     Inr ([(''success'', VBool True),
           (''scripts'', VArr (map VStr (scan_for_files eng ''res://'' [''.gd''] (listing w))))],
          w)"

section \<open>Dispatch and entry point\<close>

definition execute_operation :: "engine \<Rightarrow> string \<Rightarrow> dict \<Rightarrow> world \<Rightarrow> outcome" where
  "execute_operation eng operation params w =
     (if operation = ''create_scene'' then create_scene eng params w
      else if operation = ''add_node'' then add_node eng params w
      else if operation = ''remove_node'' then remove_node eng params w
      else if operation = ''modify_node'' then modify_node eng params w
      else if operation = ''read_scene'' then read_scene eng params w
      else if operation = ''list_nodes'' then list_nodes eng params w
      else if operation = ''create_script'' then create_script eng params w
      else if operation = ''attach_script'' then attach_script eng params w
      else if operation = ''create_animation'' then create_animation eng params w
      else if operation = ''add_animation_track'' then add_animation_track eng params w
      else if operation = ''create_resource'' then create_resource eng params w
      else if operation = ''get_project_info'' then get_project_info eng params w
      else if operation = ''list_scenes'' then list_scenes eng params w
      else if operation = ''list_scripts'' then list_scripts eng params w
      else Inr (failed (''Unknown operation: '' @ operation), w))"




section \<open>The executor on the host\<close>

text \<open>
  The class \<^verbatim>\<open>GodotExecutor\<close> of the host. A JavaScript string is modelled by the list of
  its code units below 256; \<^verbatim>\<open>trim()\<close> removes the WhiteSpace and LineTerminator code
  units among them from both ends.
\<close>

datatype json =
    JNull
  | JBool bool
  | JNum real
  | JStr string
  | JArr "json list"
  | JObj "(string \<times> json) list"

text \<open>
  An \<^verbatim>\<open>ExecutionResult\<close> as it is at run time: after \<^verbatim>\<open>JSON.parse\<close> the fields hold
  whatever the decoded record held; \<open>None\<close> is \<^verbatim>\<open>undefined\<close>.
\<close>

record ExecutionResult =
  success :: json
  "output" :: json
  error :: "json option"

datatype proc_event =
    StdoutData string
  | StderrData string
  | CloseEvent "int option"
  | ErrorEvent string

text \<open>
  \<^verbatim>\<open>spawn\<close> either throws at once or returns a child process, which is known to the
  executor by the events it emits, in order; a process that never exits emits no
  \<^verbatim>\<open>close\<close>.
\<close>

datatype spawned = SpawnThrows string | Spawned "proc_event list"

datatype 'a promise = Pending | Resolved 'a | Rejected string

text \<open>
  What the executor uses and the repository does not define: \<^verbatim>\<open>JSON.parse\<close> (\<open>None\<close> when
  it throws), \<^verbatim>\<open>JSON.stringify\<close>, and the outcome of \<^verbatim>\<open>spawn\<close> for a command and its
  arguments.
\<close>

record host =
  JSON_parse :: "string \<Rightarrow> json option"
  JSON_stringify :: "json \<Rightarrow> string"
  spawn :: "string \<Rightarrow> string list \<Rightarrow> spawned"

record GodotExecutor =
  godotPath :: string
  operationsScriptPath :: string

definition white_space :: "char \<Rightarrow> bool" where
  "white_space c = (c \<in> {CHR 0x09, CHR 0x0A, CHR 0x0B, CHR 0x0C, CHR 0x0D, CHR 0x20, CHR 0xA0})"

definition trim :: "string \<Rightarrow> string" where
  "trim s = rev (dropWhile white_space (rev (dropWhile white_space s)))"

text \<open>
  \<^verbatim>\<open>stdout.match(/\[GODOT_MCP_RESULT\](.*)\[\/GODOT_MCP_RESULT\]/s)\<close>: the match starts at
  the first opening marker, and the greedy group, in which the dot matches every
  character, runs up to the last closing marker after it. \<open>result_match\<close> is group 1.
\<close>

fun after_first :: "string \<Rightarrow> string \<Rightarrow> string option" where
  "after_first m [] = (if m = [] then Some [] else None)"
| "after_first m (c # cs) =
     (if take (length m) (c # cs) = m then Some (drop (length m) (c # cs))
      else after_first m cs)"

fun before_last :: "string \<Rightarrow> string \<Rightarrow> string option" where
  "before_last m [] = (if m = [] then Some [] else None)"
| "before_last m (c # cs) =
     (case before_last m cs of
        Some t \<Rightarrow> Some (c # t)
      | None \<Rightarrow> if take (length m) (c # cs) = m then Some [] else None)"

definition result_match :: "string \<Rightarrow> string option" where
  "result_match stdout =
     (case after_first ''[GODOT_MCP_RESULT]'' stdout of
        None \<Rightarrow> None
      | Some rest \<Rightarrow> before_last ''[/GODOT_MCP_RESULT]'' rest)"

text \<open>
  \<^verbatim>\<open>result.key\<close> for a decoded value other than null (\<open>None\<close> is \<^verbatim>\<open>undefined\<close>), and
  \<^verbatim>\<open>a ?? b\<close>.
\<close>

definition member :: "json \<Rightarrow> string \<Rightarrow> json option" where
  "member v k = (case v of JObj kvs \<Rightarrow> map_of kvs k | _ \<Rightarrow> None)"

definition nullish :: "json option \<Rightarrow> json \<Rightarrow> json" where
  "nullish a b = (case a of None \<Rightarrow> b | Some JNull \<Rightarrow> b | Some v \<Rightarrow> v)"

text \<open>
  The \<^verbatim>\<open>try\<close> block of the \<^verbatim>\<open>close\<close> handler: \<open>None\<close> when it throws, which is when
  \<^verbatim>\<open>JSON.parse\<close> throws and when the decoded value is null (reading \<^verbatim>\<open>result.success\<close>).
\<close>

definition decoded_result :: "host \<Rightarrow> string \<Rightarrow> ExecutionResult option" where
  "decoded_result h body =
     (case JSON_parse h (trim body) of
        None \<Rightarrow> None
      | Some JNull \<Rightarrow> None
      | Some result \<Rightarrow>
          Some \<lparr>success = nullish (member result ''success'') (JBool True),
                output = nullish (member result ''output'')
                           (nullish (member result ''message'') (JStr (JSON_stringify h result))),
                error = member result ''error''\<rparr>)"

definition on_close :: "host \<Rightarrow> string \<Rightarrow> string \<Rightarrow> int option \<Rightarrow> ExecutionResult" where
  "on_close h stdout stderr code =
     (case (case result_match stdout of None \<Rightarrow> None | Some body \<Rightarrow> decoded_result h body) of
        Some r \<Rightarrow> r
      | None \<Rightarrow>
          \<lparr>success = JBool (code = Some 0),
           output = JStr (trim stdout),
           error = (if trim stderr = [] then None else Some (JStr (trim stderr)))\<rparr>)"

text \<open>The handlers of \<^verbatim>\<open>execute\<close> over the events of the process; the first \<^verbatim>\<open>resolve\<close>
  settles the promise.\<close>

fun execute_events :: "host \<Rightarrow> proc_event list \<Rightarrow> string \<Rightarrow> string \<Rightarrow> ExecutionResult promise" where
  "execute_events h [] stdout stderr = Pending"
| "execute_events h (StdoutData d # es) stdout stderr = execute_events h es (stdout @ d) stderr"
| "execute_events h (StderrData d # es) stdout stderr = execute_events h es stdout (stderr @ d)"
| "execute_events h (CloseEvent code # es) stdout stderr = Resolved (on_close h stdout stderr code)"
| "execute_events h (ErrorEvent m # es) stdout stderr =
     Resolved \<lparr>success = JBool False, output = JStr [], error = Some (JStr m)\<rparr>"

definition execute ::
  "host \<Rightarrow> GodotExecutor \<Rightarrow> string \<Rightarrow> string \<Rightarrow> json \<Rightarrow> ExecutionResult promise" where
  "execute h this projectPath operation params =
     (case spawn h (godotPath this)
             [''--headless'', ''--path'', projectPath, ''-s'', operationsScriptPath this,
              ''--'', operation, JSON_stringify h params] of
        SpawnThrows m \<Rightarrow> Rejected m
      | Spawned es \<Rightarrow> execute_events h es [] [])"

fun executeRaw_events :: "proc_event list \<Rightarrow> string \<Rightarrow> string \<Rightarrow> ExecutionResult promise" where
  "executeRaw_events [] stdout stderr = Pending"
| "executeRaw_events (StdoutData d # es) stdout stderr = executeRaw_events es (stdout @ d) stderr"
| "executeRaw_events (StderrData d # es) stdout stderr = executeRaw_events es stdout (stderr @ d)"
| "executeRaw_events (CloseEvent code # es) stdout stderr =
     Resolved \<lparr>success = JBool (code = Some 0), output = JStr (trim stdout),
               error = (if trim stderr = [] then None else Some (JStr (trim stderr)))\<rparr>"
| "executeRaw_events (ErrorEvent m # es) stdout stderr =
     Resolved \<lparr>success = JBool False, output = JStr [], error = Some (JStr m)\<rparr>"

definition executeRaw :: "host \<Rightarrow> GodotExecutor \<Rightarrow> string list \<Rightarrow> ExecutionResult promise" where
  "executeRaw h this args =
     (case spawn h (godotPath this) args of
        SpawnThrows m \<Rightarrow> Rejected m
      | Spawned es \<Rightarrow> executeRaw_events es [] [])"

text \<open>
  \<^verbatim>\<open>launchEditor\<close> and \<^verbatim>\<open>runProject\<close> attach no handler to the process: after \<^verbatim>\<open>spawn\<close>
  and \<^verbatim>\<open>unref\<close> the promise is resolved, whatever the events are.
\<close>

definition launchEditor :: "host \<Rightarrow> GodotExecutor \<Rightarrow> string \<Rightarrow> ExecutionResult promise" where
  "launchEditor h this projectPath =
     (case spawn h (godotPath this) [''--editor'', ''--path'', projectPath] of
        SpawnThrows m \<Rightarrow> Rejected m
      | Spawned es \<Rightarrow>
          Resolved \<lparr>success = JBool True,
                    output = JStr (''Launched Godot editor for project at '' @ projectPath),
                    error = None\<rparr>)"

definition runProject :: "host \<Rightarrow> GodotExecutor \<Rightarrow> string \<Rightarrow> ExecutionResult promise" where
  "runProject h this projectPath =
     (case spawn h (godotPath this) [''--path'', projectPath] of
        SpawnThrows m \<Rightarrow> Rejected m
      | Spawned es \<Rightarrow>
          Resolved \<lparr>success = JBool True,
                    output = JStr (''Running project at '' @ projectPath),
                    error = None\<rparr>)"

section \<open>A small engine to run the model on\<close>

text \<open>
  An engine for the closed instances below: numbers and booleans are floats, a class
  exposes the properties \<open>demo_properties\<close> lists for it, \<^verbatim>\<open>set\<close> stores the value of
  an exposed property and does nothing for any other name, and a path is \<^verbatim>\<open>.\<close> or the
  name of a child.
\<close>

definition demo_properties :: "string \<Rightarrow> string list" where
  "demo_properties cls =
     (if cls = ''Node2D'' \<or> cls = ''Sprite2D'' then [''position'', ''rotation'', ''visible'']
      else [])"

fun child_index :: "string \<Rightarrow> node list \<Rightarrow> nat option" where
  "child_index nm [] = None"
| "child_index nm (c # cs) =
     (if node_name c = nm then Some 0 else map_option Suc (child_index nm cs))"

definition demo_engine :: engine where
  "demo_engine = \<lparr>
     to_float = (\<lambda>v. case v of VNum r \<Rightarrow> Some r | VBool b \<Rightarrow> Some (if b then 1 else 0)
                          | _ \<Rightarrow> None),
     booleanize = (\<lambda>v. v = VBool True),
     str = (\<lambda>v. ''?''),
     class_exists = (\<lambda>c. False),
     classdb_instantiate = (\<lambda>c. None),
     inherits = (\<lambda>c d. c = d),
     get_prop = (\<lambda>n k.
        if k \<in> set (demo_properties (node_class n)) then dict_get (node_props n) k VNull
        else VNull),
     property_names = (\<lambda>n. demo_properties (node_class n)),
     set_prop = (\<lambda>n k v.
        if k \<in> set (demo_properties (node_class n))
        then Node (node_name n) (node_class n) ((k, v) # node_props n) (node_script n)
               (node_libs n) (node_children n)
        else n),
     res_set_prop = (\<lambda>r k v. Resource (res_class r) ((k, v) # res_props r)),
     valid_name = (\<lambda>s. s),
     child_name = (\<lambda>p s. s),
     resolve_path = (\<lambda>n p.
        if p = ''.'' then Some []
        else map_option (\<lambda>i. [i]) (child_index p (node_children n))),
     get_path = (\<lambda>n p. []),
     get_path_to = (\<lambda>n p. if p = [] then ''.'' else ''child''),
     pack_error = (\<lambda>n. 0),
     save_error = (\<lambda>w p. 0),
     open_write_ok = (\<lambda>w p. True),
     get_base_dir = (\<lambda>p. []),
     globalize_path = (\<lambda>p. p),
     path_join = (\<lambda>p q. p @ ''/'' @ q),
     lib_add_animation = (\<lambda>l k a. (k, a) # l),
     json_parse = (\<lambda>s.
        if s = ''{}'' then Inr (VDict [])
        else if s = ''{'' @ dq @ ''scene_path'' @ dq @ '':5}''
        then Inr (VDict [(''scene_path'', VNum 5)])
        else Inl ''Unexpected character''),
     json_stringify = (\<lambda>v. ''{}''),
     version_info = VNull \<rparr>"

text \<open>A project with one scene, a root of class Node2D and one child of class Sprite2D.\<close>

definition demo_scene :: node where
  "demo_scene = Node ''Root'' ''Node2D'' [] None [] [Node ''Hero'' ''Sprite2D'' [] None [] []]"

definition demo_world :: world where
  "demo_world = \<lparr>
     files = [''res://main.tscn'' \<mapsto> SceneFile (Some demo_scene)],
     listing = None,
     trace = [] \<rparr>"

text \<open>A host on which every process is started and then emits nothing.\<close>

definition demo_host :: host where
  "demo_host = \<lparr>
     JSON_parse = (\<lambda>s. if s = ''{}'' then Some (JObj []) else None),
     JSON_stringify = (\<lambda>v. ''{}''),
     spawn = (\<lambda>cmd args. Spawned []) \<rparr>"

definition demo_executor :: GodotExecutor where
  "demo_executor = \<lparr>godotPath = ''godot'', operationsScriptPath = ''godot_operations.gd''\<rparr>"

text \<open>The names \<^verbatim>\<open>_execute_operation\<close> dispatches on.\<close>

definition operation_names :: "string list" where
  "operation_names =
     [''create_scene'', ''add_node'', ''remove_node'', ''modify_node'', ''read_scene'',
      ''list_nodes'', ''create_script'', ''attach_script'', ''create_animation'',
      ''add_animation_track'', ''create_resource'', ''get_project_info'', ''list_scenes'',
      ''list_scripts'']"

section \<open>Predicates on results\<close>

text \<open>
  \<open>all_results Q m\<close>: when the operation returned, its result and the project after it
  satisfy \<open>Q\<close>. \<open>message_operations\<close> are the operations whose success carries a
  \<^verbatim>\<open>message\<close>; \<open>data_fields\<close> are the keys the success of an operation carries besides
  \<^verbatim>\<open>success\<close> and \<^verbatim>\<open>message\<close>, in the order of the script. \<open>has_shape msg fs\<close>: the
  result is a failure with the keys \<^verbatim>\<open>success\<close> and \<^verbatim>\<open>error\<close>, or a success with the
  keys \<^verbatim>\<open>success\<close>, \<^verbatim>\<open>message\<close> if \<open>msg\<close>, and \<open>fs\<close>.
\<close>

definition all_results :: "(dict \<Rightarrow> world \<Rightarrow> bool) \<Rightarrow> outcome \<Rightarrow> bool" where
  "all_results Q m = (case m of Inl e \<Rightarrow> True | Inr rw \<Rightarrow> Q (fst rw) (snd rw))"

definition message_operations :: "string list" where
  "message_operations =
     [''create_scene'', ''add_node'', ''remove_node'', ''modify_node'', ''create_script'',
      ''attach_script'', ''create_animation'', ''add_animation_track'', ''create_resource'']"

definition data_fields :: "string \<Rightarrow> string list" where
  "data_fields operation =
     (if operation = ''create_scene'' then [''scene_path'', ''root_type'', ''root_name'']
      else if operation = ''add_node'' then [''node_path'']
      else if operation = ''modify_node'' then [''modified_properties'']
      else if operation = ''read_scene'' then [''scene_path'', ''tree'']
      else if operation = ''list_nodes'' then [''nodes'']
      else if operation = ''create_script'' then [''script_path'']
      else if operation = ''get_project_info''
      then [''project_name'', ''main_scene'', ''godot_version'', ''project_path'']
      else if operation = ''list_scenes'' then [''scenes'']
      else if operation = ''list_scripts'' then [''scripts'']
      else [])"

definition has_shape :: "bool \<Rightarrow> string list \<Rightarrow> dict \<Rightarrow> world \<Rightarrow> bool" where
  "has_shape msg fs res w \<longleftrightarrow>
     map fst res = [''success'', ''error''] \<and> map_of res ''success'' = Some (VBool False)
     \<or> map fst res = ''success'' # (if msg then [''message''] else []) @ fs
       \<and> map_of res ''success'' = Some (VBool True)"

section \<open>Predicates on the trace\<close>

text \<open>
  \<open>new_events w w'\<close>: what an operation that took the project from \<open>w\<close> to \<open>w'\<close> added to
  the trace. \<open>sets_raw properties e\<close>: if \<open>e\<close> is a \<^verbatim>\<open>set\<close>, its value is
  \<^verbatim>\<open>properties[name]\<close> itself; \<open>sets_converted\<close>: its value is the conversion of
  \<^verbatim>\<open>properties[name]\<close>. \<open>extends_by P w w'\<close>: the trace of \<open>w'\<close> is the trace of \<open>w\<close>
  followed by events that satisfy \<open>P\<close>.
\<close>

definition new_events :: "world \<Rightarrow> world \<Rightarrow> event list" where
  "new_events w w' = drop (length (trace w)) (trace w')"

definition sets_raw :: "variant \<Rightarrow> event \<Rightarrow> bool" where
  "sets_raw properties e =
     (case e of SetProp k v \<Rightarrow> index properties (VStr k) = Inr v | _ \<Rightarrow> True)"

definition sets_converted :: "engine \<Rightarrow> variant \<Rightarrow> event \<Rightarrow> bool" where
  "sets_converted eng properties e =
     (case e of
        SetProp k v \<Rightarrow>
          (case index properties (VStr k) of
             Inl err \<Rightarrow> False
           | Inr raw \<Rightarrow> convert_property_value eng raw = Inr v)
      | _ \<Rightarrow> True)"

definition extends_by :: "(event \<Rightarrow> bool) \<Rightarrow> world \<Rightarrow> world \<Rightarrow> bool" where
  "extends_by P w w' = (\<exists>evs. trace w' = trace w @ evs \<and> list_all P evs)"

text \<open>
  What C10 says of the two loops, written from its words and compared with the loops of
  the script below. \<open>received_node\<close>: the node after every entry whose key the node
  exposes at that moment was assigned with its value as received; \<open>received_sets\<close>: the
  \<^verbatim>\<open>set\<close> calls of that. \<open>convert_all\<close>: the entries with every value converted;
  \<open>set_all\<close>: the node after every entry was assigned.
\<close>

fun received_node :: "engine \<Rightarrow> dict \<Rightarrow> node \<Rightarrow> node" where
  "received_node eng [] n = n"
| "received_node eng (kv # ps) n =
     (if get_prop eng n (fst kv) \<noteq> VNull \<or> fst kv \<in> set (property_names eng n)
      then received_node eng ps (set_prop eng n (fst kv) (snd kv))
      else received_node eng ps n)"

fun received_sets :: "engine \<Rightarrow> dict \<Rightarrow> node \<Rightarrow> event list" where
  "received_sets eng [] n = []"
| "received_sets eng (kv # ps) n =
     (if get_prop eng n (fst kv) \<noteq> VNull \<or> fst kv \<in> set (property_names eng n)
      then SetProp (fst kv) (snd kv) # received_sets eng ps (set_prop eng n (fst kv) (snd kv))
      else received_sets eng ps n)"

fun convert_all :: "engine \<Rightarrow> dict \<Rightarrow> script_error + dict" where
  "convert_all eng [] = Inr []"
| "convert_all eng (kv # ps) =
     bindE (convert_property_value eng (snd kv)) (\<lambda>v.
     bindE (convert_all eng ps) (\<lambda>cps. Inr ((fst kv, v) # cps)))"

definition set_all :: "engine \<Rightarrow> dict \<Rightarrow> node \<Rightarrow> node" where
  "set_all eng cps n = fold (\<lambda>kv m. set_prop eng m (fst kv) (snd kv)) cps n"

text \<open>The tagged record \<^verbatim>\<open>{_type: "Vector2", x: 1, y: 2}\<close>.\<close>

definition demo_tagged :: variant where
  "demo_tagged = VDict [(''_type'', VStr ''Vector2''), (''x'', VNum 1), (''y'', VNum 2)]"

section \<open>Properties of the value converter\<close>

lemma bindE_Inr [simp]: "bindE (Inr x) f = f x"
  by (simp add: bindE_def)

lemma bindE_Inl [simp]: "bindE (Inl e) f = Inl e"
  by (simp add: bindE_def)

lemma bindE_eq_Inr: "bindE m f = Inr y \<longleftrightarrow> (\<exists>x. m = Inr x \<and> f x = Inr y)"
  by (cases m) simp_all

lemma convert_native:
  assumes "convert_property_value eng v = Inr u"
  shows "u = v \<or> (\<forall>d. u \<noteq> VDict d)"
  using assms
  by (auto simp: convert_property_value_def Vector2_def Vector3_def Color_def Rect2_def
      bindE_eq_Inr Let_def split: variant.splits if_splits)

lemma convert_not_dict:
  assumes "\<forall>d. v \<noteq> VDict d"
  shows "convert_property_value eng v = Inr v"
  using assms by (cases v) (simp_all add: convert_property_value_def)

text \<open>
  C5. The converter maps \<^verbatim>\<open>{_type:"Color", r:1, g:0, b:0}\<close> to the color (1, 0, 0, 1),
  the missing alpha being 1, and \<^verbatim>\<open>{_type:"Vector2", x:5}\<close> to the vector (5, 0), the
  missing component being 0; on an engine whose float for the numbers 0, 1 and 5 is that
  number.
\<close>

theorem convert_color_and_vector2:
  assumes "to_float eng (VNum 0) = Some 0"
    and "to_float eng (VNum 1) = Some 1"
    and "to_float eng (VNum 5) = Some 5"
  shows "convert_property_value eng
           (VDict [(''_type'', VStr ''Color''), (''r'', VNum 1), (''g'', VNum 0), (''b'', VNum 0)])
         = Inr (VColor 1 0 0 1)
       \<and> convert_property_value eng (VDict [(''_type'', VStr ''Vector2''), (''x'', VNum 5)])
         = Inr (VVector2 5 0)"
  using assms
  by (simp add: convert_property_value_def has_def dict_get_def Color_def Vector2_def
      as_float_def)

theorem convert_color_and_vector2_witness:
  "convert_property_value demo_engine
     (VDict [(''_type'', VStr ''Color''), (''r'', VNum 1), (''g'', VNum 0), (''b'', VNum 0)])
   = Inr (VColor 1 0 0 1)
   \<and> convert_property_value demo_engine (VDict [(''_type'', VStr ''Vector2''), (''x'', VNum 5)])
   = Inr (VVector2 5 0)"
  using convert_color_and_vector2 [of demo_engine]
  by (simp add: demo_engine_def)

text \<open>
  C6. Conversion is idempotent: converting the result of a conversion gives that result
  again (and a conversion that raised stays raised). A value that is not a Dictionary, a
  Dictionary without \<^verbatim>\<open>_type\<close>, and a Dictionary whose \<^verbatim>\<open>_type\<close> is none of the four
  recognised names are returned as they are, with no error.
\<close>

theorem convert_idempotent:
  "bindE (convert_property_value eng v) (convert_property_value eng)
     = convert_property_value eng v
   \<and> ((\<forall>d. u \<noteq> VDict d) \<longrightarrow> convert_property_value eng u = Inr u)
   \<and> (\<not> has d ''_type'' \<longrightarrow> convert_property_value eng (VDict d) = Inr (VDict d))
   \<and> (dict_get d' ''_type'' VNull \<notin>
         {VStr ''Vector2'', VStr ''Vector3'', VStr ''Color'', VStr ''Rect2''}
       \<longrightarrow> convert_property_value eng (VDict d') = Inr (VDict d'))"
proof (intro conjI impI)
  show "bindE (convert_property_value eng v) (convert_property_value eng)
          = convert_property_value eng v"
  proof (cases "convert_property_value eng v")
    case (Inl e)
    then show ?thesis by simp
  next
    case (Inr w)
    from convert_native [OF Inr] have "convert_property_value eng w = Inr w"
    proof
      assume "w = v"
      with Inr show ?thesis by simp
    next
      assume "\<forall>d. w \<noteq> VDict d"
      then show ?thesis by (simp add: convert_not_dict)
    qed
    with Inr show ?thesis by simp
  qed
next
  assume "\<forall>d. u \<noteq> VDict d"
  then show "convert_property_value eng u = Inr u" by (simp add: convert_not_dict)
next
  assume "\<not> has d ''_type''"
  then show "convert_property_value eng (VDict d) = Inr (VDict d)"
    by (simp add: convert_property_value_def)
next
  assume "dict_get d' ''_type'' VNull \<notin>
            {VStr ''Vector2'', VStr ''Vector3'', VStr ''Color'', VStr ''Rect2''}"
  then show "convert_property_value eng (VDict d') = Inr (VDict d')"
    by (simp add: convert_property_value_def Let_def)
qed

theorem convert_idempotent_witness:
  "bindE (convert_property_value demo_engine (VDict [(''_type'', VStr ''Vector2''), (''x'', VNum 5)]))
     (convert_property_value demo_engine) = Inr (VVector2 5 0)
   \<and> convert_property_value demo_engine (VVector2 5 0) = Inr (VVector2 5 0)
   \<and> convert_property_value demo_engine (VDict [(''x'', VNum 5)]) = Inr (VDict [(''x'', VNum 5)])
   \<and> convert_property_value demo_engine (VDict [(''_type'', VStr ''Basis''), (''x'', VNum 5)])
       = Inr (VDict [(''_type'', VStr ''Basis''), (''x'', VNum 5)])"
  using convert_idempotent [of demo_engine "VDict [(''_type'', VStr ''Vector2''), (''x'', VNum 5)]"
      "VVector2 5 0" "[(''x'', VNum 5)]" "[(''_type'', VStr ''Basis''), (''x'', VNum 5)]"]
  by (simp add: convert_property_value_def has_def dict_get_def Vector2_def as_float_def
      demo_engine_def)

section \<open>Dispatch, root protection and exit code\<close>

text \<open>
  C2. For an operation name that is none of the names dispatched on, the result is
  \<^verbatim>\<open>{success: false, error: "Unknown operation: " + name}\<close> and the project is returned as
  it was: no file is changed and nothing joins the trace, so nothing was loaded or saved.
  The result is a failure, never an empty success.
\<close>

theorem unknown_operation:
  assumes "operation \<notin> set operation_names"
  shows "execute_operation eng operation params w
         = Inr ([(''success'', VBool False),
                 (''error'', VStr (''Unknown operation: '' @ operation))], w)"
  using assms by (simp add: execute_operation_def operation_names_def failed_def)

theorem unknown_operation_witness:
  "execute_operation demo_engine ''bogus'' [] demo_world
     = Inr ([(''success'', VBool False), (''error'', VStr ''Unknown operation: bogus'')],
            demo_world)"
  using unknown_operation [where operation = "''bogus''" and eng = demo_engine
      and params = "[]" and w = demo_world]
  by (simp add: operation_names_def)

text \<open>
  C3. When \<^verbatim>\<open>remove_node\<close> is given a scene that loads and a node path that the engine
  resolves to the scene root (the empty path is refused before any resolution), the
  result is the failure \<^verbatim>\<open>Cannot remove root node\<close>, which is not the not-found
  message, and the project afterwards differs from the one before only by the load in
  its trace: the files are the same and nothing was saved.
\<close>

theorem remove_root_refused:
  assumes "dict_get params ''scene_path'' (VStr []) = VStr path" and "path \<noteq> []"
    and "dict_get params ''node_path'' (VStr []) = VStr target" and "target \<noteq> []"
    and "files w path = Some (SceneFile (Some scene_root))"
    and "resolve_path eng scene_root target = Some []"
  shows "remove_node eng params w
         = Inr ([(''success'', VBool False), (''error'', VStr ''Cannot remove root node'')],
                w\<lparr>trace := trace w @ [Load path]\<rparr>)
       \<and> ''Cannot remove root node'' \<noteq> ''Node not found: '' @ target
       \<and> files (w\<lparr>trace := trace w @ [Load path]\<rparr>) = files w"
  using assms
  by (simp add: remove_node_def is_empty_or_def is_empty_def as_String_def load_PackedScene_def
      instantiate_def get_node_or_null_def failed_def emit_def)

theorem remove_root_refused_witness:
  "remove_node demo_engine
     [(''scene_path'', VStr ''res://main.tscn''), (''node_path'', VStr ''.'')] demo_world
   = Inr ([(''success'', VBool False), (''error'', VStr ''Cannot remove root node'')],
          demo_world\<lparr>trace := trace demo_world @ [Load ''res://main.tscn'']\<rparr>)"
  using remove_root_refused [where path = "''res://main.tscn''" and target = "''.''"
      and params = "[(''scene_path'', VStr ''res://main.tscn''), (''node_path'', VStr ''.'')]"
      and w = demo_world and scene_root = demo_scene and eng = demo_engine]
  by (simp add: dict_get_def demo_world_def demo_engine_def)






section \<open>The decoder and the launches on the host\<close>

lemma after_first_Some: "after_first m s = Some r \<Longrightarrow> \<exists>a. s = a @ m @ r"
proof (induction s)
  case Nil
  then show ?case by (simp split: if_splits)
next
  case (Cons x xs)
  show ?case
  proof (cases "take (length m) (x # xs) = m")
    case True
    with Cons.prems have "r = drop (length m) (x # xs)" by simp
    with True have "x # xs = [] @ m @ r" by (metis append_Nil append_take_drop_id)
    then show ?thesis by blast
  next
    case False
    with Cons.prems have "after_first m xs = Some r" by simp
    with Cons.IH obtain a where "xs = a @ m @ r" by blast
    then have "x # xs = (x # a) @ m @ r" by simp
    then show ?thesis by blast
  qed
qed

lemma after_first_prefix: "after_first m (m @ c) = Some c"
proof (cases "m @ c")
  case Nil
  then show ?thesis by simp
next
  case (Cons x xs)
  then have "take (length m) (x # xs) = m" and "drop (length m) (x # xs) = c"
    by (metis append_eq_conv_conj)+
  then have "after_first m (x # xs) = Some c" by simp
  with Cons show ?thesis by simp
qed

lemma before_last_prefix: "before_last m (m @ c) \<noteq> None"
proof (cases "m @ c")
  case Nil
  then show ?thesis by simp
next
  case (Cons x xs)
  then have "take (length m) (x # xs) = m"
    by (metis append_eq_conv_conj)
  then have "before_last m (x # xs) \<noteq> None" by (simp split: option.splits)
  with Cons show ?thesis by simp
qed

lemma after_first_occurs: "\<exists>r d. after_first m (a @ m @ c) = Some r \<and> r = d @ c"
proof (induction a)
  case Nil
  show ?case by (simp add: after_first_prefix)
next
  case (Cons x a)
  show ?case
  proof (cases "take (length m) (x # a @ m @ c) = m")
    case True
    then have "after_first m ((x # a) @ m @ c) = Some (drop (length m) ((x # a) @ m @ c))"
      by simp
    moreover have "drop (length m) (ys @ c) = drop (length m) ys @ c"
      if "length m \<le> length ys" for ys :: string
      using that by simp
    from this [of "(x # a) @ m"]
    have "drop (length m) ((x # a) @ m @ c) = drop (length m) ((x # a) @ m) @ c"
      by simp
    ultimately show ?thesis by blast
  next
    case False
    then have "after_first m ((x # a) @ m @ c) = after_first m (a @ m @ c)" by simp
    with Cons.IH show ?thesis by simp
  qed
qed

lemma before_last_Some: "before_last m s = Some t \<Longrightarrow> \<exists>c. s = t @ m @ c"
proof (induction s arbitrary: t)
  case Nil
  then show ?case by (simp split: if_splits)
next
  case (Cons x xs)
  show ?case
  proof (cases "before_last m xs")
    case None
    with Cons.prems have m: "take (length m) (x # xs) = m" and t: "t = []"
      by (simp_all split: if_splits)
    from m have "x # xs = m @ drop (length m) (x # xs)" by (metis append_take_drop_id)
    with t show ?thesis by auto
  next
    case (Some u)
    with Cons.prems have t: "t = x # u" by simp
    from Cons.IH [OF Some] obtain c where "xs = u @ m @ c" by blast
    with t show ?thesis by simp
  qed
qed

lemma before_last_occurs: "before_last m (b @ m @ c) \<noteq> None"
proof (induction b)
  case Nil
  show ?case by (simp add: before_last_prefix)
next
  case (Cons x b)
  then show ?case by (auto split: option.splits)
qed

lemma result_match_None_iff:
  "result_match stdout = None \<longleftrightarrow>
     (\<nexists>a b c. stdout = a @ ''[GODOT_MCP_RESULT]'' @ b @ ''[/GODOT_MCP_RESULT]'' @ c)"
proof
  assume none: "result_match stdout = None"
  show "\<nexists>a b c. stdout = a @ ''[GODOT_MCP_RESULT]'' @ b @ ''[/GODOT_MCP_RESULT]'' @ c"
  proof
    assume "\<exists>a b c. stdout = a @ ''[GODOT_MCP_RESULT]'' @ b @ ''[/GODOT_MCP_RESULT]'' @ c"
    then obtain a b c
      where s: "stdout = a @ ''[GODOT_MCP_RESULT]'' @ (b @ ''[/GODOT_MCP_RESULT]'' @ c)"
      by auto
    from after_first_occurs [of "''[GODOT_MCP_RESULT]''" a "b @ ''[/GODOT_MCP_RESULT]'' @ c"]
    obtain r d where r: "after_first ''[GODOT_MCP_RESULT]'' stdout = Some r"
      and d: "r = d @ b @ ''[/GODOT_MCP_RESULT]'' @ c"
      unfolding s by blast
    from d have "r = (d @ b) @ ''[/GODOT_MCP_RESULT]'' @ c" by simp
    then have "before_last ''[/GODOT_MCP_RESULT]'' r \<noteq> None"
      using before_last_occurs [of "''[/GODOT_MCP_RESULT]''" "d @ b" c] by simp
    with r none show False by (simp add: result_match_def)
  qed
next
  assume no: "\<nexists>a b c. stdout = a @ ''[GODOT_MCP_RESULT]'' @ b @ ''[/GODOT_MCP_RESULT]'' @ c"
  show "result_match stdout = None"
  proof (rule ccontr)
    assume "result_match stdout \<noteq> None"
    then obtain rest body where r: "after_first ''[GODOT_MCP_RESULT]'' stdout = Some rest"
      and b: "before_last ''[/GODOT_MCP_RESULT]'' rest = Some body"
      by (auto simp: result_match_def split: option.splits)
    from after_first_Some [OF r] obtain a where "stdout = a @ ''[GODOT_MCP_RESULT]'' @ rest"
      by blast
    moreover from before_last_Some [OF b] obtain c
      where "rest = body @ ''[/GODOT_MCP_RESULT]'' @ c" by blast
    ultimately have "stdout = a @ ''[GODOT_MCP_RESULT]'' @ body @ ''[/GODOT_MCP_RESULT]'' @ c"
      by simp
    with no show False by blast
  qed
qed

text \<open>
  C8. When the accumulated standard output holds no opening marker followed by a closing
  marker, or \<^verbatim>\<open>JSON.parse\<close> throws on the trimmed text between the markers, the result
  of the \<^verbatim>\<open>close\<close> handler has \<^verbatim>\<open>success\<close> equal to (exit code = 0), \<^verbatim>\<open>output\<close> the
  trimmed standard output and \<^verbatim>\<open>error\<close> the trimmed standard error, undefined when that
  is empty.
\<close>

theorem on_close_fallback:
  assumes "(\<nexists>a b c. stdout = a @ ''[GODOT_MCP_RESULT]'' @ b @ ''[/GODOT_MCP_RESULT]'' @ c)
           \<or> (\<exists>body. result_match stdout = Some body \<and> JSON_parse h (trim body) = None)"
  shows "on_close h stdout stderr code
         = \<lparr>success = JBool (code = Some 0),
            output = JStr (trim stdout),
            error = (if trim stderr = [] then None else Some (JStr (trim stderr)))\<rparr>"
  using assms
proof
  assume "\<nexists>a b c. stdout = a @ ''[GODOT_MCP_RESULT]'' @ b @ ''[/GODOT_MCP_RESULT]'' @ c"
  then have "result_match stdout = None" by (rule iffD2 [OF result_match_None_iff])
  then show ?thesis by (simp add: on_close_def)
next
  assume "\<exists>body. result_match stdout = Some body \<and> JSON_parse h (trim body) = None"
  then show ?thesis by (auto simp: on_close_def decoded_result_def)
qed

theorem on_close_fallback_witness:
  "on_close demo_host ''WARNING: no display '' '' boom'' (Some 1)
     = \<lparr>success = JBool False, output = JStr ''WARNING: no display'', error = Some (JStr ''boom'')\<rparr>
   \<and> on_close demo_host (''[GODOT_MCP_RESULT]{oops[/GODOT_MCP_RESULT]'' @ nl) [] (Some 0)
     = \<lparr>success = JBool True, output = JStr ''[GODOT_MCP_RESULT]{oops[/GODOT_MCP_RESULT]'',
        error = None\<rparr>"
proof -
  have "result_match ''WARNING: no display '' = None"
    by (simp add: result_match_def)
  then have 1: "\<nexists>a b c. ''WARNING: no display ''
                  = a @ ''[GODOT_MCP_RESULT]'' @ b @ ''[/GODOT_MCP_RESULT]'' @ c"
    by (rule iffD1 [OF result_match_None_iff])
  have 2: "\<exists>body. result_match (''[GODOT_MCP_RESULT]{oops[/GODOT_MCP_RESULT]'' @ nl) = Some body
             \<and> JSON_parse demo_host (trim body) = None"
    by (simp add: result_match_def nl_def trim_def white_space_def demo_host_def)
  show ?thesis
    using on_close_fallback [where stdout = "''WARNING: no display ''" and h = demo_host
        and stderr = "'' boom''" and code = "Some 1", OF disjI1, OF 1]
      on_close_fallback [where stdout = "''[GODOT_MCP_RESULT]{oops[/GODOT_MCP_RESULT]'' @ nl"
        and h = demo_host and stderr = "[]" and code = "Some 0", OF disjI2, OF 2]
    by (simp add: trim_def white_space_def nl_def)
qed


text \<open>
  C9. Once \<^verbatim>\<open>spawn\<close> has returned a process, \<^verbatim>\<open>launchEditor\<close> and \<^verbatim>\<open>runProject\<close> resolve
  with \<^verbatim>\<open>success: true\<close> whatever events the process emits afterwards: an error, a
  nonzero exit, or none at all.
\<close>

theorem launches_resolve_at_once:
  "(spawn h (godotPath this) [''--editor'', ''--path'', projectPath] = Spawned es \<longrightarrow>
      launchEditor h this projectPath
      = Resolved \<lparr>success = JBool True,
                  output = JStr (''Launched Godot editor for project at '' @ projectPath),
                  error = None\<rparr>)
   \<and> (spawn h (godotPath this) [''--path'', projectPath] = Spawned es' \<longrightarrow>
      runProject h this projectPath
      = Resolved \<lparr>success = JBool True,
                  output = JStr (''Running project at '' @ projectPath),
                  error = None\<rparr>)"
  by (simp add: launchEditor_def runProject_def)

text \<open>On the demo host no process ever exits: the launches resolve, \<^verbatim>\<open>execute\<close> stays
  pending.\<close>

theorem launches_resolve_at_once_witness:
  "launchEditor demo_host demo_executor ''/game''
     = Resolved \<lparr>success = JBool True,
                 output = JStr ''Launched Godot editor for project at /game'',
                 error = None\<rparr>
   \<and> runProject demo_host demo_executor ''/game''
     = Resolved \<lparr>success = JBool True, output = JStr ''Running project at /game'',
                 error = None\<rparr>
   \<and> execute demo_host demo_executor ''/game'' ''read_scene'' (JObj []) = Pending"
  using launches_resolve_at_once [where h = demo_host and this = demo_executor
      and projectPath = "''/game''" and es = "[]" and es' = "[]"]
  by (simp add: demo_host_def execute_def)

section \<open>The shape of a result\<close>

lemma failed_shape: "has_shape msg fs (failed m) w"
  by (simp add: has_shape_def failed_def)

lemma ar_Inr: "Q res w \<Longrightarrow> all_results Q (Inr (res, w))"
  by (simp add: all_results_def)

lemma ar_bind: "(\<And>x. m = Inr x \<Longrightarrow> all_results Q (f x)) \<Longrightarrow> all_results Q (bindE m f)"
  by (cases m) (simp_all add: all_results_def)

lemma ar_if:
  "(c \<Longrightarrow> all_results Q a) \<Longrightarrow> (\<not> c \<Longrightarrow> all_results Q b) \<Longrightarrow> all_results Q (if c then a else b)"
  by simp

lemma ar_option:
  "(x = None \<Longrightarrow> all_results Q a) \<Longrightarrow> (\<And>y. x = Some y \<Longrightarrow> all_results Q (f y))
   \<Longrightarrow> all_results Q (case x of None \<Rightarrow> a | Some y \<Rightarrow> f y)"
  by (cases x) simp_all

lemma ar_prod:
  "(\<And>a b. x = (a, b) \<Longrightarrow> all_results Q (f a b)) \<Longrightarrow> all_results Q (case x of (a, b) \<Rightarrow> f a b)"
  by (cases x) simp

lemmas ar_rules = ar_bind ar_if ar_option ar_prod

lemma ar_D: "all_results Q m \<Longrightarrow> m = Inr (res, w') \<Longrightarrow> Q res w'"
  by (simp add: all_results_def)

lemma create_scene_shape:
  "all_results (has_shape True [''scene_path'', ''root_type'', ''root_name'']) (create_scene eng params w)"
  unfolding create_scene_def Let_def
  by (intro ar_rules ar_Inr failed_shape) (simp add: has_shape_def)

lemma add_node_shape:
  "all_results (has_shape True [''node_path'']) (add_node eng params w)"
  unfolding add_node_def Let_def
  by (intro ar_rules ar_Inr failed_shape) (simp add: has_shape_def)

lemma remove_node_shape:
  "all_results (has_shape True []) (remove_node eng params w)"
  unfolding remove_node_def Let_def
  by (intro ar_rules ar_Inr failed_shape) (simp add: has_shape_def)

lemma modify_node_shape:
  "all_results (has_shape True [''modified_properties'']) (modify_node eng params w)"
  unfolding modify_node_def Let_def
  by (intro ar_rules ar_Inr failed_shape) (simp add: has_shape_def)

lemma read_scene_shape:
  "all_results (has_shape False [''scene_path'', ''tree'']) (read_scene eng params w)"
  unfolding read_scene_def Let_def
  by (intro ar_rules ar_Inr failed_shape) (simp add: has_shape_def)

lemma list_nodes_shape:
  "all_results (has_shape False [''nodes'']) (list_nodes eng params w)"
  unfolding list_nodes_def Let_def
  by (intro ar_rules ar_Inr failed_shape) (simp add: has_shape_def)

lemma create_script_shape:
  "all_results (has_shape True [''script_path'']) (create_script eng params w)"
  unfolding create_script_def Let_def
  by (intro ar_rules ar_Inr failed_shape) (simp add: has_shape_def)

lemma attach_script_shape:
  "all_results (has_shape True []) (attach_script eng params w)"
  unfolding attach_script_def Let_def
  by (intro ar_rules ar_Inr failed_shape) (simp add: has_shape_def)

lemma create_animation_shape:
  "all_results (has_shape True []) (create_animation eng params w)"
  unfolding create_animation_def Let_def
  by (intro ar_rules ar_Inr failed_shape) (simp add: has_shape_def)

lemma add_animation_track_shape:
  "all_results (has_shape True []) (add_animation_track eng params w)"
  unfolding add_animation_track_def Let_def
  by (intro ar_rules ar_Inr failed_shape) (simp add: has_shape_def)

lemma create_resource_shape:
  "all_results (has_shape True []) (create_resource eng params w)"
  unfolding create_resource_def Let_def
  by (intro ar_rules ar_Inr failed_shape) (simp add: has_shape_def)

lemma get_project_info_shape:
  "all_results (has_shape False [''project_name'', ''main_scene'', ''godot_version'', ''project_path'']) (get_project_info eng params w)"
  by (simp add: get_project_info_def all_results_def has_shape_def failed_def
      split: option.splits disk_file.splits)

lemma list_scenes_shape:
  "all_results (has_shape False [''scenes'']) (list_scenes eng params w)"
  by (simp add: list_scenes_def all_results_def has_shape_def)

lemma list_scripts_shape:
  "all_results (has_shape False [''scripts'']) (list_scripts eng params w)"
  by (simp add: list_scripts_def all_results_def has_shape_def)

lemma has_iff: "has res k \<longleftrightarrow> k \<in> set (map fst res)"
  by (simp add: has_def map_of_eq_None_iff)

lemma shape_case:
  assumes "all_results (has_shape msg fs) m" and "m = Inr (res, w')"
    and "msg \<longleftrightarrow> operation \<in> set message_operations"
    and "data_fields operation = fs"
    and "''error'' \<notin> set fs" and "''message'' \<notin> set fs"
  shows "map_of res ''success'' = Some (VBool (\<not> has res ''error''))
       \<and> \<not> (has res ''message'' \<and> has res ''error'')
       \<and> (has res ''message'' \<longleftrightarrow> \<not> has res ''error'' \<and> operation \<in> set message_operations)
       \<and> map fst res
           = (if has res ''error'' then [''success'', ''error'']
              else ''success'' # (if operation \<in> set message_operations then [''message''] else [])
                   @ data_fields operation)"
proof -
  from ar_D [OF assms(1,2)] have "has_shape msg fs res w'" .
  then consider
      (failure) "map fst res = [''success'', ''error'']"
                "map_of res ''success'' = Some (VBool False)"
    | (success) "map fst res = ''success'' # (if msg then [''message''] else []) @ fs"
                "map_of res ''success'' = Some (VBool True)"
    by (auto simp: has_shape_def)
  then show ?thesis
  proof cases
    case failure
    then show ?thesis by (simp add: has_iff)
  next
    case success
    with assms(3-6) show ?thesis by (simp add: has_iff)
  qed
qed

lemma dispatch_create_scene: "execute_operation eng ''create_scene'' params w = create_scene eng params w"
  by (simp add: execute_operation_def)

lemma dispatch_add_node: "execute_operation eng ''add_node'' params w = add_node eng params w"
  by (simp add: execute_operation_def)

lemma dispatch_remove_node: "execute_operation eng ''remove_node'' params w = remove_node eng params w"
  by (simp add: execute_operation_def)

lemma dispatch_modify_node: "execute_operation eng ''modify_node'' params w = modify_node eng params w"
  by (simp add: execute_operation_def)

lemma dispatch_read_scene: "execute_operation eng ''read_scene'' params w = read_scene eng params w"
  by (simp add: execute_operation_def)

lemma dispatch_list_nodes: "execute_operation eng ''list_nodes'' params w = list_nodes eng params w"
  by (simp add: execute_operation_def)

lemma dispatch_create_script: "execute_operation eng ''create_script'' params w = create_script eng params w"
  by (simp add: execute_operation_def)

lemma dispatch_attach_script: "execute_operation eng ''attach_script'' params w = attach_script eng params w"
  by (simp add: execute_operation_def)

lemma dispatch_create_animation: "execute_operation eng ''create_animation'' params w = create_animation eng params w"
  by (simp add: execute_operation_def)

lemma dispatch_add_animation_track: "execute_operation eng ''add_animation_track'' params w = add_animation_track eng params w"
  by (simp add: execute_operation_def)

lemma dispatch_create_resource: "execute_operation eng ''create_resource'' params w = create_resource eng params w"
  by (simp add: execute_operation_def)

lemma dispatch_get_project_info: "execute_operation eng ''get_project_info'' params w = get_project_info eng params w"
  by (simp add: execute_operation_def)

lemma dispatch_list_scenes: "execute_operation eng ''list_scenes'' params w = list_scenes eng params w"
  by (simp add: execute_operation_def)

lemma dispatch_list_scripts: "execute_operation eng ''list_scripts'' params w = list_scripts eng params w"
  by (simp add: execute_operation_def)

lemma message_op_create_scene: "True \<longleftrightarrow> ''create_scene'' \<in> set message_operations"
  by (simp add: message_operations_def)

lemma message_op_add_node: "True \<longleftrightarrow> ''add_node'' \<in> set message_operations"
  by (simp add: message_operations_def)

lemma message_op_remove_node: "True \<longleftrightarrow> ''remove_node'' \<in> set message_operations"
  by (simp add: message_operations_def)

lemma message_op_modify_node: "True \<longleftrightarrow> ''modify_node'' \<in> set message_operations"
  by (simp add: message_operations_def)

lemma data_op_read_scene: "False \<longleftrightarrow> ''read_scene'' \<in> set message_operations"
  by (simp add: message_operations_def)

lemma data_op_list_nodes: "False \<longleftrightarrow> ''list_nodes'' \<in> set message_operations"
  by (simp add: message_operations_def)

lemma message_op_create_script: "True \<longleftrightarrow> ''create_script'' \<in> set message_operations"
  by (simp add: message_operations_def)

lemma message_op_attach_script: "True \<longleftrightarrow> ''attach_script'' \<in> set message_operations"
  by (simp add: message_operations_def)

lemma message_op_create_animation: "True \<longleftrightarrow> ''create_animation'' \<in> set message_operations"
  by (simp add: message_operations_def)

lemma message_op_add_animation_track: "True \<longleftrightarrow> ''add_animation_track'' \<in> set message_operations"
  by (simp add: message_operations_def)

lemma message_op_create_resource: "True \<longleftrightarrow> ''create_resource'' \<in> set message_operations"
  by (simp add: message_operations_def)

lemma data_op_get_project_info: "False \<longleftrightarrow> ''get_project_info'' \<in> set message_operations"
  by (simp add: message_operations_def)

lemma data_op_list_scenes: "False \<longleftrightarrow> ''list_scenes'' \<in> set message_operations"
  by (simp add: message_operations_def)

lemma data_op_list_scripts: "False \<longleftrightarrow> ''list_scripts'' \<in> set message_operations"
  by (simp add: message_operations_def)

lemma data_fields_create_scene: "data_fields ''create_scene'' = [''scene_path'', ''root_type'', ''root_name'']"
  by (simp add: data_fields_def)

lemma data_fields_add_node: "data_fields ''add_node'' = [''node_path'']"
  by (simp add: data_fields_def)

lemma data_fields_remove_node: "data_fields ''remove_node'' = []"
  by (simp add: data_fields_def)

lemma data_fields_modify_node: "data_fields ''modify_node'' = [''modified_properties'']"
  by (simp add: data_fields_def)

lemma data_fields_read_scene: "data_fields ''read_scene'' = [''scene_path'', ''tree'']"
  by (simp add: data_fields_def)

lemma data_fields_list_nodes: "data_fields ''list_nodes'' = [''nodes'']"
  by (simp add: data_fields_def)

lemma data_fields_create_script: "data_fields ''create_script'' = [''script_path'']"
  by (simp add: data_fields_def)

lemma data_fields_attach_script: "data_fields ''attach_script'' = []"
  by (simp add: data_fields_def)

lemma data_fields_create_animation: "data_fields ''create_animation'' = []"
  by (simp add: data_fields_def)

lemma data_fields_add_animation_track: "data_fields ''add_animation_track'' = []"
  by (simp add: data_fields_def)

lemma data_fields_create_resource: "data_fields ''create_resource'' = []"
  by (simp add: data_fields_def)

lemma data_fields_get_project_info: "data_fields ''get_project_info'' = [''project_name'', ''main_scene'', ''godot_version'', ''project_path'']"
  by (simp add: data_fields_def)

lemma data_fields_list_scenes: "data_fields ''list_scenes'' = [''scenes'']"
  by (simp add: data_fields_def)

lemma data_fields_list_scripts: "data_fields ''list_scripts'' = [''scripts'']"
  by (simp add: data_fields_def)

lemma unknown_not_message_op:
  "operation \<notin> set operation_names \<Longrightarrow> operation \<notin> set message_operations"
  by (simp add: operation_names_def message_operations_def)

lemma unknown_no_data_fields:
  "operation \<notin> set operation_names \<Longrightarrow> data_fields operation = []"
  by (simp add: operation_names_def data_fields_def)

text \<open>
  C1, as the script has it. In the result of every operation that returns, \<^verbatim>\<open>success\<close>
  is a boolean and \<^verbatim>\<open>error\<close> is there exactly when it is false; \<^verbatim>\<open>message\<close> and \<^verbatim>\<open>error\<close>
  are never both there; \<^verbatim>\<open>message\<close> is there exactly on the success of one of the nine
  operations of \<open>message_operations\<close>. The keys of a failure are \<^verbatim>\<open>success\<close> and
  \<^verbatim>\<open>error\<close>; the keys of a success are \<^verbatim>\<open>success\<close>, \<^verbatim>\<open>message\<close> for those nine operations,
  and the data fields of the operation: a successful \<^verbatim>\<open>read_scene\<close> carries \<^verbatim>\<open>scene_path\<close>
  and \<^verbatim>\<open>tree\<close>, \<^verbatim>\<open>list_nodes\<close> carries \<^verbatim>\<open>nodes\<close>, \<^verbatim>\<open>get_project_info\<close> carries
  \<^verbatim>\<open>project_name\<close>, \<^verbatim>\<open>main_scene\<close>, \<^verbatim>\<open>godot_version\<close> and \<^verbatim>\<open>project_path\<close>,
  \<^verbatim>\<open>list_scenes\<close> carries \<^verbatim>\<open>scenes\<close> and \<^verbatim>\<open>list_scripts\<close> carries \<^verbatim>\<open>scripts\<close>, and none of
  them carries \<^verbatim>\<open>message\<close> or \<^verbatim>\<open>error\<close>.
\<close>

theorem result_shape:
  assumes "execute_operation eng operation params w = Inr (res, w')"
  shows "map_of res ''success'' = Some (VBool (\<not> has res ''error''))
       \<and> \<not> (has res ''message'' \<and> has res ''error'')
       \<and> (has res ''message'' \<longleftrightarrow> \<not> has res ''error'' \<and> operation \<in> set message_operations)
       \<and> map fst res
           = (if has res ''error'' then [''success'', ''error'']
              else ''success'' # (if operation \<in> set message_operations then [''message''] else [])
                   @ data_fields operation)"
proof (cases "operation \<in> set operation_names")
  case False
  then have "res = failed (''Unknown operation: '' @ operation)"
    using assms by (simp add: execute_operation_def operation_names_def)
  with unknown_not_message_op [OF False] unknown_no_data_fields [OF False] show ?thesis
    by (simp add: failed_def has_def)
next
  case True
  then have "operation = ''create_scene'' \<or> operation = ''add_node'' \<or> operation = ''remove_node'' \<or> operation = ''modify_node'' \<or> operation = ''read_scene'' \<or> operation = ''list_nodes''
      \<or> operation = ''create_script'' \<or> operation = ''attach_script'' \<or> operation = ''create_animation'' \<or> operation = ''add_animation_track''
      \<or> operation = ''create_resource'' \<or> operation = ''get_project_info'' \<or> operation = ''list_scenes'' \<or> operation = ''list_scripts''"
    by (simp add: operation_names_def)
  then show ?thesis
  proof (elim disjE)
    assume op: "operation = ''create_scene''"
    show ?thesis unfolding op
      by (rule shape_case [OF create_scene_shape assms [unfolded op dispatch_create_scene] message_op_create_scene
            data_fields_create_scene]) simp_all
  next
    assume op: "operation = ''add_node''"
    show ?thesis unfolding op
      by (rule shape_case [OF add_node_shape assms [unfolded op dispatch_add_node] message_op_add_node
            data_fields_add_node]) simp_all
  next
    assume op: "operation = ''remove_node''"
    show ?thesis unfolding op
      by (rule shape_case [OF remove_node_shape assms [unfolded op dispatch_remove_node] message_op_remove_node
            data_fields_remove_node]) simp_all
  next
    assume op: "operation = ''modify_node''"
    show ?thesis unfolding op
      by (rule shape_case [OF modify_node_shape assms [unfolded op dispatch_modify_node] message_op_modify_node
            data_fields_modify_node]) simp_all
  next
    assume op: "operation = ''read_scene''"
    show ?thesis unfolding op
      by (rule shape_case [OF read_scene_shape assms [unfolded op dispatch_read_scene] data_op_read_scene
            data_fields_read_scene]) simp_all
  next
    assume op: "operation = ''list_nodes''"
    show ?thesis unfolding op
      by (rule shape_case [OF list_nodes_shape assms [unfolded op dispatch_list_nodes] data_op_list_nodes
            data_fields_list_nodes]) simp_all
  next
    assume op: "operation = ''create_script''"
    show ?thesis unfolding op
      by (rule shape_case [OF create_script_shape assms [unfolded op dispatch_create_script] message_op_create_script
            data_fields_create_script]) simp_all
  next
    assume op: "operation = ''attach_script''"
    show ?thesis unfolding op
      by (rule shape_case [OF attach_script_shape assms [unfolded op dispatch_attach_script] message_op_attach_script
            data_fields_attach_script]) simp_all
  next
    assume op: "operation = ''create_animation''"
    show ?thesis unfolding op
      by (rule shape_case [OF create_animation_shape assms [unfolded op dispatch_create_animation] message_op_create_animation
            data_fields_create_animation]) simp_all
  next
    assume op: "operation = ''add_animation_track''"
    show ?thesis unfolding op
      by (rule shape_case [OF add_animation_track_shape assms [unfolded op dispatch_add_animation_track] message_op_add_animation_track
            data_fields_add_animation_track]) simp_all
  next
    assume op: "operation = ''create_resource''"
    show ?thesis unfolding op
      by (rule shape_case [OF create_resource_shape assms [unfolded op dispatch_create_resource] message_op_create_resource
            data_fields_create_resource]) simp_all
  next
    assume op: "operation = ''get_project_info''"
    show ?thesis unfolding op
      by (rule shape_case [OF get_project_info_shape assms [unfolded op dispatch_get_project_info] data_op_get_project_info
            data_fields_get_project_info]) simp_all
  next
    assume op: "operation = ''list_scenes''"
    show ?thesis unfolding op
      by (rule shape_case [OF list_scenes_shape assms [unfolded op dispatch_list_scenes] data_op_list_scenes
            data_fields_list_scenes]) simp_all
  next
    assume op: "operation = ''list_scripts''"
    show ?thesis unfolding op
      by (rule shape_case [OF list_scripts_shape assms [unfolded op dispatch_list_scripts] data_op_list_scripts
            data_fields_list_scripts]) simp_all
  qed
qed

lemma demo_remove_hero:
  "execute_operation demo_engine ''remove_node''
     [(''scene_path'', VStr ''res://main.tscn''), (''node_path'', VStr ''Hero'')] demo_world
   = Inr ([(''success'', VBool True), (''message'', VStr ''Removed node: Hero'')],
          \<lparr>files = [''res://main.tscn'' \<mapsto> SceneFile (Some (Node ''Root'' ''Node2D'' [] None [] []))],
           listing = None,
           trace = [Load ''res://main.tscn'', Save ''res://main.tscn'']\<rparr>)"
  by (simp add: dispatch_remove_node remove_node_def dict_get_def is_empty_or_def is_empty_def
      as_String_def load_PackedScene_def demo_world_def instantiate_def get_node_or_null_def
      demo_engine_def demo_scene_def pack_and_save_def ResourceSaver_save_def emit_def pack_def
      with_children_def)

lemma demo_list_scripts:
  "execute_operation demo_engine ''list_scripts'' [] demo_world
   = Inr ([(''success'', VBool True), (''scripts'', VArr [])], demo_world)"
  by (simp add: dispatch_list_scripts list_scripts_def demo_world_def)

theorem result_shape_witness:
  "map fst [(''success'', VBool True), (''message'', VStr ''Removed node: Hero'')]
     = ''success'' # ''message'' # data_fields ''remove_node''
   \<and> ''remove_node'' \<in> set message_operations
   \<and> map fst [(''success'', VBool True), (''scripts'', VArr [])]
     = ''success'' # data_fields ''list_scripts''
   \<and> ''list_scripts'' \<notin> set message_operations"
  using result_shape [OF demo_remove_hero] result_shape [OF demo_list_scripts]
  by (simp add: has_def split: if_splits)

text \<open>
  C1 as stated fails: \<^verbatim>\<open>read_scene\<close> on a scene that loads returns \<^verbatim>\<open>success\<close>,
  \<^verbatim>\<open>scene_path\<close> and \<^verbatim>\<open>tree\<close>, with neither \<^verbatim>\<open>message\<close> nor \<^verbatim>\<open>error\<close>.
\<close>

theorem read_scene_neither_message_nor_error:
  "map_sum id fst (execute_operation demo_engine ''read_scene''
      [(''scene_path'', VStr ''res://main.tscn'')] demo_world)
   = Inr [(''success'', VBool True), (''scene_path'', VStr ''res://main.tscn''),
          (''tree'', VDict [(''name'', VStr ''Root''), (''type'', VStr ''Node2D''),
             (''path'', VStr []),
             (''children'', VArr [VDict [(''name'', VStr ''Hero''), (''type'', VStr ''Sprite2D''),
                (''path'', VStr [])]])])]
   \<and> \<not> has (fst (projr (execute_operation demo_engine ''read_scene''
      [(''scene_path'', VStr ''res://main.tscn'')] demo_world))) ''message''
   \<and> \<not> has (fst (projr (execute_operation demo_engine ''read_scene''
      [(''scene_path'', VStr ''res://main.tscn'')] demo_world))) ''error''"
  by (simp add: execute_operation_def read_scene_def dict_get_def is_empty_def
      as_String_def load_PackedScene_def demo_world_def instantiate_def
      demo_engine_def demo_scene_def emit_def has_def)

section \<open>What the property loops give to set\<close>

lemma extends_by_refl: "extends_by P w w"
  by (simp add: extends_by_def)

lemma extends_by_trans: "extends_by P w w1 \<Longrightarrow> extends_by P w1 w2 \<Longrightarrow> extends_by P w w2"
  by (auto simp: extends_by_def)

lemma extends_by_emit: "P e \<Longrightarrow> extends_by P w (emit e w)"
  by (simp add: extends_by_def emit_def)

lemma load_PackedScene_extends:
  "load_PackedScene w p = (x, w1) \<Longrightarrow> (\<And>q. P (Load q)) \<Longrightarrow> extends_by P w w1"
  by (auto simp: load_PackedScene_def extends_by_emit split: option.splits disk_file.splits)

lemma pack_and_save_extends:
  "pack_and_save eng r p w = (e, w1) \<Longrightarrow> (\<And>q. P (Save q)) \<Longrightarrow> extends_by P w w1"
  by (auto simp: pack_and_save_def ResourceSaver_save_def Let_def extends_by_def emit_def
      split: if_splits)

lemma add_node_properties_extends:
  "add_node_properties eng properties keys n w = Inr (n', w')
   \<Longrightarrow> extends_by (sets_raw properties) w w'"
proof (induction keys arbitrary: n w)
  case Nil
  then show ?case by (simp add: extends_by_refl)
next
  case (Cons k ks)
  from Cons.prems obtain prop_name where k: "as_String k = Inr prop_name"
    by (auto simp: bindE_eq_Inr)
  then have kv: "k = VStr prop_name" by (cases k) (simp_all add: as_String_def)
  show ?case
  proof (cases "get_prop eng n prop_name \<noteq> VNull \<or> prop_name \<in> set (property_names eng n)")
    case True
    with Cons.prems k obtain v where v: "index properties k = Inr v"
      and rest: "add_node_properties eng properties ks (set_prop eng n prop_name v)
                   (emit (SetProp prop_name v) w) = Inr (n', w')"
      by (auto simp: bindE_eq_Inr)
    from v kv have "sets_raw properties (SetProp prop_name v)" by (simp add: sets_raw_def)
    then have "extends_by (sets_raw properties) w (emit (SetProp prop_name v) w)"
      by (rule extends_by_emit)
    with Cons.IH [OF rest] show ?thesis by (blast intro: extends_by_trans)
  next
    case False
    with Cons.prems k have "add_node_properties eng properties ks n w = Inr (n', w')"
      by (auto simp: bindE_eq_Inr)
    then show ?thesis by (rule Cons.IH)
  qed
qed

lemma modify_node_properties_extends:
  "modify_node_properties eng properties keys n w acc = Inr (n', w', acc')
   \<Longrightarrow> extends_by (sets_converted eng properties) w w'"
proof (induction keys arbitrary: n w acc)
  case Nil
  then show ?case by (simp add: extends_by_refl)
next
  case (Cons k ks)
  from Cons.prems obtain raw v prop_name where raw: "index properties k = Inr raw"
    and v: "convert_property_value eng raw = Inr v"
    and k: "as_String k = Inr prop_name"
    and rest: "modify_node_properties eng properties ks (set_prop eng n prop_name v)
                 (emit (SetProp prop_name v) w) (acc @ [k]) = Inr (n', w', acc')"
    by (auto simp: bindE_eq_Inr)
  from k have kv: "k = VStr prop_name" by (cases k) (simp_all add: as_String_def)
  from raw v kv have "sets_converted eng properties (SetProp prop_name v)"
    by (simp add: sets_converted_def)
  then have "extends_by (sets_converted eng properties) w (emit (SetProp prop_name v) w)"
    by (rule extends_by_emit)
  with Cons.IH [OF rest] show ?case by (blast intro: extends_by_trans)
qed

lemma add_node_sets_raw:
  "all_results (\<lambda>res. extends_by (sets_raw (dict_get params ''properties'' (VDict []))) w)
     (add_node eng params w)"
  unfolding add_node_def Let_def
  by (intro ar_rules ar_Inr)
    (auto intro: extends_by_refl extends_by_trans
      dest!: load_PackedScene_extends [where P = "sets_raw (dict_get params ''properties'' (VDict []))"]
        pack_and_save_extends [where P = "sets_raw (dict_get params ''properties'' (VDict []))"]
        add_node_properties_extends
      simp: sets_raw_def)

lemma extends_by_new_events:
  "extends_by P w w' \<Longrightarrow> e \<in> set (new_events w w') \<Longrightarrow> P e"
  by (auto simp: extends_by_def new_events_def list_all_iff)

lemma modify_node_sets_converted:
  "all_results (\<lambda>res. extends_by (sets_converted eng (dict_get params ''properties'' (VDict []))) w)
     (modify_node eng params w)"
  unfolding modify_node_def Let_def
  by (intro ar_rules ar_Inr)
    (auto intro: extends_by_refl extends_by_trans
      dest!: load_PackedScene_extends
               [where P = "sets_converted eng (dict_get params ''properties'' (VDict []))"]
        pack_and_save_extends
               [where P = "sets_converted eng (dict_get params ''properties'' (VDict []))"]
        modify_node_properties_extends
      simp: sets_converted_def)

lemma add_node_properties_received:
  assumes "distinct (map fst ps)"
  shows "set qs \<subseteq> set ps \<Longrightarrow>
    add_node_properties eng (VDict ps) (map (\<lambda>kv. VStr (fst kv)) qs) n w
    = Inr (received_node eng qs n, w\<lparr>trace := trace w @ received_sets eng qs n\<rparr>)"
proof (induction qs arbitrary: n w)
  case Nil
  then show ?case by simp
next
  case (Cons kv qs)
  then have "kv \<in> set ps" and sub: "set qs \<subseteq> set ps" by auto
  then have "(fst kv, snd kv) \<in> set ps" by simp
  with assms have "map_of ps (fst kv) = Some (snd kv)" by (rule map_of_is_SomeI)
  then have ix: "index (VDict ps) (VStr (fst kv)) = Inr (snd kv)" by (simp add: index_def)
  show ?case
    by (simp add: as_String_def ix Cons.IH [OF sub] emit_def)
qed

lemma modify_node_properties_converted:
  assumes "distinct (map fst ps)"
  shows "set qs \<subseteq> set ps \<Longrightarrow> convert_all eng qs = Inr cps \<Longrightarrow>
    modify_node_properties eng (VDict ps) (map (\<lambda>kv. VStr (fst kv)) qs) n w acc
    = Inr (set_all eng cps n,
           w\<lparr>trace := trace w @ map (\<lambda>kv. SetProp (fst kv) (snd kv)) cps\<rparr>,
           acc @ map (\<lambda>kv. VStr (fst kv)) qs)"
proof (induction qs arbitrary: n w acc cps)
  case Nil
  then show ?case by (auto simp: set_all_def)
next
  case (Cons kv qs)
  then have "kv \<in> set ps" and sub: "set qs \<subseteq> set ps" by auto
  then have "(fst kv, snd kv) \<in> set ps" by simp
  with assms have "map_of ps (fst kv) = Some (snd kv)" by (rule map_of_is_SomeI)
  then have ix: "index (VDict ps) (VStr (fst kv)) = Inr (snd kv)" by (simp add: index_def)
  from Cons.prems(2) obtain v rest where v: "convert_property_value eng (snd kv) = Inr v"
    and rest: "convert_all eng qs = Inr rest" and cps: "cps = (fst kv, v) # rest"
    by (auto simp: bindE_eq_Inr)
  show ?case
    by (simp add: as_String_def ix v cps Cons.IH [OF sub rest] emit_def set_all_def)
qed

lemma add_node_assigns_as_received:
  assumes sp: "dict_get params ''scene_path'' (VStr []) = VStr path" and ne: "path \<noteq> []"
    and scene: "files w path = Some (SceneFile (Some scene_root))"
    and pp: "dict_get params ''parent_path'' (VStr ''.'') = VStr parent"
    and found: "(if parent = ''.'' then Some ([], scene_root)
                 else get_node_or_null eng scene_root parent) = Some (pos, parent_node)"
    and ty: "dict_get params ''node_type'' (VStr ''Node'') = VStr type_name"
    and created: "create_node_of_type eng type_name = Inr (Some n)"
    and nm: "dict_get params ''node_name'' (VStr ''NewNode'') = VStr name"
    and props: "dict_get params ''properties'' (VDict []) = VDict ps"
    and dist: "distinct (map fst ps)"
    and save: "\<forall>w1. save_error eng w1 path = 0"
  shows "add_node eng params w
         = Inr ([(''success'', VBool True),
                 (''message'', VStr (''Added '' @ type_name @ '' node '' @ quote @ name @ quote
                    @ '' to '' @ parent)),
                 (''node_path'', VStr (if parent \<noteq> ''.'' then parent @ ''/'' @ name else name))],
                w\<lparr>files := (files w)(path \<mapsto> SceneFile (pack eng
                      (update_at (\<lambda>p. add_child eng p
                          (received_node eng ps (set_name eng n name))) scene_root pos))),
                  trace := trace w @ [Load path]
                           @ received_sets eng ps (set_name eng n name) @ [Save path]\<rparr>)"
proof -
  have loop: "add_node_properties eng (VDict ps) (map (\<lambda>kv. VStr (fst kv)) ps)
                (set_name eng n name) (emit (Load path) w)
              = Inr (received_node eng ps (set_name eng n name),
                     (emit (Load path) w)\<lparr>trace := trace (emit (Load path) w)
                        @ received_sets eng ps (set_name eng n name)\<rparr>)"
    by (rule add_node_properties_received [OF dist]) simp
  show ?thesis
    using ne scene found created save
    by (simp add: add_node_def sp pp ty nm props is_empty_def as_String_def
        load_PackedScene_def instantiate_def iterate_def loop [unfolded emit_def]
        pack_and_save_def ResourceSaver_save_def Let_def emit_def del: fun_upd_apply)
qed

lemma modify_node_assigns_converted:
  assumes sp: "dict_get params ''scene_path'' (VStr []) = VStr path" and ne: "path \<noteq> []"
    and np: "dict_get params ''node_path'' (VStr []) = VStr target" and nt: "target \<noteq> []"
    and scene: "files w path = Some (SceneFile (Some scene_root))"
    and found: "(if target \<noteq> ''.'' then get_node_or_null eng scene_root target
                 else Some ([], scene_root)) = Some (pos, node)"
    and props: "dict_get params ''properties'' (VDict []) = VDict ps"
    and dist: "distinct (map fst ps)"
    and conv: "convert_all eng ps = Inr cps"
    and save: "\<forall>w1. save_error eng w1 path = 0"
  shows "modify_node eng params w
         = Inr ([(''success'', VBool True),
                 (''message'', VStr (''Modified properties on '' @ target)),
                 (''modified_properties'', VArr (map (\<lambda>kv. VStr (fst kv)) ps))],
                w\<lparr>files := (files w)(path \<mapsto> SceneFile (pack eng
                      (update_at (\<lambda>old. set_all eng cps node) scene_root pos))),
                  trace := trace w @ [Load path]
                           @ map (\<lambda>kv. SetProp (fst kv) (snd kv)) cps @ [Save path]\<rparr>)"
proof -
  have loop: "modify_node_properties eng (VDict ps) (map (\<lambda>kv. VStr (fst kv)) ps)
                node (emit (Load path) w) []
              = Inr (set_all eng cps node,
                     (emit (Load path) w)\<lparr>trace := trace (emit (Load path) w)
                        @ map (\<lambda>kv. SetProp (fst kv) (snd kv)) cps\<rparr>,
                     [] @ map (\<lambda>kv. VStr (fst kv)) ps)"
    by (rule modify_node_properties_converted [OF dist _ conv]) simp
  show ?thesis
    using ne nt scene found save
    by (simp add: modify_node_def sp np props is_empty_or_def is_empty_def as_String_def
        load_PackedScene_def instantiate_def iterate_def loop [unfolded emit_def]
        pack_and_save_def ResourceSaver_save_def Let_def emit_def del: fun_upd_apply)
qed

text \<open>
  C10. Every \<^verbatim>\<open>set\<close> that \<^verbatim>\<open>add_node\<close> makes passes \<^verbatim>\<open>properties[prop_name]\<close> exactly as
  received, and every \<^verbatim>\<open>set\<close> that \<^verbatim>\<open>modify_node\<close> makes passes its conversion. When
  \<^verbatim>\<open>add_node\<close> goes through (the scene loads, the parent is found, the type is known,
  the save succeeds), the node it adds to the parent and saves is the new node with
  every accepted entry of \<^verbatim>\<open>properties\<close> assigned as received, one \<^verbatim>\<open>set\<close> for each, the
  converter applied to none. When \<^verbatim>\<open>modify_node\<close> goes through, the node it saves is
  the target with every entry assigned after conversion. For the tagged record
  \<^verbatim>\<open>{_type: "Vector2", x: 1, y: 2}\<close> the first stores the record, the second the vector
  (1, 2).
\<close>

theorem add_node_sets_values_as_received:
  "(add_node eng params w = Inr (res, w') \<longrightarrow> SetProp k v \<in> set (new_events w w') \<longrightarrow>
      index (dict_get params ''properties'' (VDict [])) (VStr k) = Inr v)
   \<and> (modify_node eng params w = Inr (mres, mw) \<longrightarrow> SetProp k v \<in> set (new_events w mw) \<longrightarrow>
      (\<exists>raw. index (dict_get params ''properties'' (VDict [])) (VStr k) = Inr raw
             \<and> convert_property_value eng raw = Inr v))
   \<and> (dict_get aparams ''scene_path'' (VStr []) = VStr path \<and> path \<noteq> []
      \<and> files aw path = Some (SceneFile (Some scene_root))
      \<and> dict_get aparams ''parent_path'' (VStr ''.'') = VStr parent
      \<and> (if parent = ''.'' then Some ([], scene_root)
          else get_node_or_null eng scene_root parent) = Some (pos, parent_node)
      \<and> dict_get aparams ''node_type'' (VStr ''Node'') = VStr type_name
      \<and> create_node_of_type eng type_name = Inr (Some n)
      \<and> dict_get aparams ''node_name'' (VStr ''NewNode'') = VStr name
      \<and> dict_get aparams ''properties'' (VDict []) = VDict ps
      \<and> distinct (map fst ps)
      \<and> (\<forall>w1. save_error eng w1 path = 0)
    \<longrightarrow> add_node eng aparams aw
        = Inr ([(''success'', VBool True),
                (''message'', VStr (''Added '' @ type_name @ '' node '' @ quote @ name @ quote
                   @ '' to '' @ parent)),
                (''node_path'', VStr (if parent \<noteq> ''.'' then parent @ ''/'' @ name else name))],
               aw\<lparr>files := (files aw)(path \<mapsto> SceneFile (pack eng
                     (update_at (\<lambda>p. add_child eng p
                         (received_node eng ps (set_name eng n name))) scene_root pos))),
                  trace := trace aw @ [Load path]
                           @ received_sets eng ps (set_name eng n name) @ [Save path]\<rparr>))
   \<and> (dict_get cparams ''scene_path'' (VStr []) = VStr cpath \<and> cpath \<noteq> []
      \<and> dict_get cparams ''node_path'' (VStr []) = VStr target \<and> target \<noteq> []
      \<and> files cw cpath = Some (SceneFile (Some croot))
      \<and> (if target \<noteq> ''.'' then get_node_or_null eng croot target
          else Some ([], croot)) = Some (cpos, node)
      \<and> dict_get cparams ''properties'' (VDict []) = VDict cps
      \<and> distinct (map fst cps)
      \<and> convert_all eng cps = Inr converted
      \<and> (\<forall>w1. save_error eng w1 cpath = 0)
    \<longrightarrow> modify_node eng cparams cw
        = Inr ([(''success'', VBool True),
                (''message'', VStr (''Modified properties on '' @ target)),
                (''modified_properties'', VArr (map (\<lambda>kv. VStr (fst kv)) cps))],
               cw\<lparr>files := (files cw)(cpath \<mapsto> SceneFile (pack eng
                     (update_at (\<lambda>old. set_all eng converted node) croot cpos))),
                  trace := trace cw @ [Load cpath]
                           @ map (\<lambda>kv. SetProp (fst kv) (snd kv)) converted @ [Save cpath]\<rparr>))"
proof (intro conjI impI)
  assume run: "add_node eng params w = Inr (res, w')"
    and ev: "SetProp k v \<in> set (new_events w w')"
  from ar_D [OF add_node_sets_raw run]
  have "extends_by (sets_raw (dict_get params ''properties'' (VDict []))) w w'" .
  from extends_by_new_events [OF this ev]
  show "index (dict_get params ''properties'' (VDict [])) (VStr k) = Inr v"
    by (simp add: sets_raw_def)
next
  assume run: "modify_node eng params w = Inr (mres, mw)"
    and ev: "SetProp k v \<in> set (new_events w mw)"
  from ar_D [OF modify_node_sets_converted run]
  have "extends_by (sets_converted eng (dict_get params ''properties'' (VDict []))) w mw" .
  from extends_by_new_events [OF this ev]
  show "\<exists>raw. index (dict_get params ''properties'' (VDict [])) (VStr k) = Inr raw
              \<and> convert_property_value eng raw = Inr v"
    by (auto simp: sets_converted_def split: sum.splits)
next
  assume h: "dict_get aparams ''scene_path'' (VStr []) = VStr path \<and> path \<noteq> []
      \<and> files aw path = Some (SceneFile (Some scene_root))
      \<and> dict_get aparams ''parent_path'' (VStr ''.'') = VStr parent
      \<and> (if parent = ''.'' then Some ([], scene_root)
          else get_node_or_null eng scene_root parent) = Some (pos, parent_node)
      \<and> dict_get aparams ''node_type'' (VStr ''Node'') = VStr type_name
      \<and> create_node_of_type eng type_name = Inr (Some n)
      \<and> dict_get aparams ''node_name'' (VStr ''NewNode'') = VStr name
      \<and> dict_get aparams ''properties'' (VDict []) = VDict ps
      \<and> distinct (map fst ps)
      \<and> (\<forall>w1. save_error eng w1 path = 0)"
  show "add_node eng aparams aw
        = Inr ([(''success'', VBool True),
                (''message'', VStr (''Added '' @ type_name @ '' node '' @ quote @ name @ quote
                   @ '' to '' @ parent)),
                (''node_path'', VStr (if parent \<noteq> ''.'' then parent @ ''/'' @ name else name))],
               aw\<lparr>files := (files aw)(path \<mapsto> SceneFile (pack eng
                     (update_at (\<lambda>p. add_child eng p
                         (received_node eng ps (set_name eng n name))) scene_root pos))),
                  trace := trace aw @ [Load path]
                           @ received_sets eng ps (set_name eng n name) @ [Save path]\<rparr>)"
    by (rule add_node_assigns_as_received [where parent_node = parent_node]) (use h in blast)+
next
  assume h: "dict_get cparams ''scene_path'' (VStr []) = VStr cpath \<and> cpath \<noteq> []
      \<and> dict_get cparams ''node_path'' (VStr []) = VStr target \<and> target \<noteq> []
      \<and> files cw cpath = Some (SceneFile (Some croot))
      \<and> (if target \<noteq> ''.'' then get_node_or_null eng croot target
          else Some ([], croot)) = Some (cpos, node)
      \<and> dict_get cparams ''properties'' (VDict []) = VDict cps
      \<and> distinct (map fst cps)
      \<and> convert_all eng cps = Inr converted
      \<and> (\<forall>w1. save_error eng w1 cpath = 0)"
  show "modify_node eng cparams cw
        = Inr ([(''success'', VBool True),
                (''message'', VStr (''Modified properties on '' @ target)),
                (''modified_properties'', VArr (map (\<lambda>kv. VStr (fst kv)) cps))],
               cw\<lparr>files := (files cw)(cpath \<mapsto> SceneFile (pack eng
                     (update_at (\<lambda>old. set_all eng converted node) croot cpos))),
                  trace := trace cw @ [Load cpath]
                           @ map (\<lambda>kv. SetProp (fst kv) (snd kv)) converted @ [Save cpath]\<rparr>)"
    by (rule modify_node_assigns_converted) (use h in blast)+
qed

theorem add_node_sets_values_as_received_witness:
  "add_node demo_engine
     [(''scene_path'', VStr ''res://main.tscn''), (''node_type'', VStr ''Sprite2D''),
      (''node_name'', VStr ''Coin''), (''properties'', VDict [(''position'', demo_tagged)])]
     demo_world
   = Inr ([(''success'', VBool True),
           (''message'', VStr (''Added Sprite2D node '' @ quote @ ''Coin'' @ quote @ '' to .'')),
           (''node_path'', VStr ''Coin'')],
          \<lparr>files = [''res://main.tscn'' \<mapsto> SceneFile (Some
              (Node ''Root'' ''Node2D'' [] None []
                 [Node ''Hero'' ''Sprite2D'' [] None [] [],
                  Node ''Coin'' ''Sprite2D'' [(''position'', demo_tagged)] None [] []]))],
           listing = None,
           trace = [Load ''res://main.tscn'', SetProp ''position'' demo_tagged,
                    Save ''res://main.tscn'']\<rparr>)
   \<and> modify_node demo_engine
     [(''scene_path'', VStr ''res://main.tscn''), (''node_path'', VStr ''Hero''),
      (''properties'', VDict [(''position'', demo_tagged)])]
     demo_world
   = Inr ([(''success'', VBool True),
           (''message'', VStr ''Modified properties on Hero''),
           (''modified_properties'', VArr [VStr ''position''])],
          \<lparr>files = [''res://main.tscn'' \<mapsto> SceneFile (Some
              (Node ''Root'' ''Node2D'' [] None []
                 [Node ''Hero'' ''Sprite2D'' [(''position'', VVector2 1 2)] None [] []]))],
           listing = None,
           trace = [Load ''res://main.tscn'', SetProp ''position'' (VVector2 1 2),
                    Save ''res://main.tscn'']\<rparr>)"
proof -
  let ?pa = "[(''scene_path'', VStr ''res://main.tscn''), (''node_type'', VStr ''Sprite2D''),
      (''node_name'', VStr ''Coin''), (''properties'', VDict [(''position'', demo_tagged)])]"
  let ?pm = "[(''scene_path'', VStr ''res://main.tscn''), (''node_path'', VStr ''Hero''),
      (''properties'', VDict [(''position'', demo_tagged)])]"
  have a: "dict_get ?pa ''scene_path'' (VStr []) = VStr ''res://main.tscn''
      \<and> ''res://main.tscn'' \<noteq> []
      \<and> files demo_world ''res://main.tscn'' = Some (SceneFile (Some demo_scene))
      \<and> dict_get ?pa ''parent_path'' (VStr ''.'') = VStr ''.''
      \<and> (if ''.'' = ''.'' then Some ([], demo_scene)
          else get_node_or_null demo_engine demo_scene ''.'') = Some ([], demo_scene)
      \<and> dict_get ?pa ''node_type'' (VStr ''Node'') = VStr ''Sprite2D''
      \<and> create_node_of_type demo_engine ''Sprite2D'' = Inr (Some (Node_new ''Sprite2D''))
      \<and> dict_get ?pa ''node_name'' (VStr ''NewNode'') = VStr ''Coin''
      \<and> dict_get ?pa ''properties'' (VDict []) = VDict [(''position'', demo_tagged)]
      \<and> distinct (map fst [(''position'', demo_tagged)])
      \<and> (\<forall>w1. save_error demo_engine w1 ''res://main.tscn'' = 0)"
    by (simp add: dict_get_def demo_world_def create_node_of_type_def node_types_def
        demo_engine_def)
  have m: "dict_get ?pm ''scene_path'' (VStr []) = VStr ''res://main.tscn''
      \<and> ''res://main.tscn'' \<noteq> []
      \<and> dict_get ?pm ''node_path'' (VStr []) = VStr ''Hero'' \<and> ''Hero'' \<noteq> []
      \<and> files demo_world ''res://main.tscn'' = Some (SceneFile (Some demo_scene))
      \<and> (if ''Hero'' \<noteq> ''.'' then get_node_or_null demo_engine demo_scene ''Hero''
          else Some ([], demo_scene))
         = Some ([0], Node ''Hero'' ''Sprite2D'' [] None [] [])
      \<and> dict_get ?pm ''properties'' (VDict []) = VDict [(''position'', demo_tagged)]
      \<and> distinct (map fst [(''position'', demo_tagged)])
      \<and> convert_all demo_engine [(''position'', demo_tagged)] = Inr [(''position'', VVector2 1 2)]
      \<and> (\<forall>w1. save_error demo_engine w1 ''res://main.tscn'' = 0)"
    by (simp add: dict_get_def demo_world_def get_node_or_null_def demo_engine_def
        demo_scene_def demo_tagged_def convert_property_value_def has_def Vector2_def
        as_float_def)
  from add_node_sets_values_as_received
         [THEN conjunct2, THEN conjunct2, THEN conjunct1, rule_format, OF a]
       add_node_sets_values_as_received
         [THEN conjunct2, THEN conjunct2, THEN conjunct2, rule_format, OF m]
  show ?thesis
    by (simp add: demo_world_def demo_scene_def demo_engine_def demo_properties_def
        Node_new_def set_name_def add_child_def with_children_def pack_def set_all_def)
qed

section \<open>Unknown property names\<close>

lemma map_of_filter_other:
  "k2 \<noteq> k \<Longrightarrow> map_of (filter (\<lambda>kv. fst kv \<noteq> k) ps) k2 = map_of ps k2"
  by (induction ps) auto

lemma index_filter_other:
  "k2 \<noteq> k \<Longrightarrow> index (VDict (filter (\<lambda>kv. fst kv \<noteq> k) ps)) (VStr k2) = index (VDict ps) (VStr k2)"
  by (simp add: index_def map_of_filter_other)

lemma add_node_properties_skip:
  assumes unexposed:
      "\<And>n. node_class n = c \<Longrightarrow> get_prop eng n k = VNull \<and> k \<notin> set (property_names eng n)"
    and keeps: "\<And>n p v. node_class (set_prop eng n p v) = node_class n"
  shows "node_class n = c \<Longrightarrow>
    add_node_properties eng (VDict ps) ks n w
    = add_node_properties eng (VDict (filter (\<lambda>kv. fst kv \<noteq> k) ps))
        (filter (\<lambda>x. x \<noteq> VStr k) ks) n w"
proof (induction ks arbitrary: n w)
  case Nil
  then show ?case by simp
next
  case (Cons x ks)
  show ?case
  proof (cases "x = VStr k")
    case True
    with unexposed [OF Cons.prems] Cons.IH [OF Cons.prems] show ?thesis
      by (simp add: as_String_def)
  next
    case False
    show ?thesis
    proof (cases x)
      case (VStr pn)
      with False have ne: "pn \<noteq> k" by simp
      have step: "add_node_properties eng (VDict ps) ks (set_prop eng n pn v) w1
            = add_node_properties eng (VDict (filter (\<lambda>kv. fst kv \<noteq> k) ps))
                (filter (\<lambda>x. x \<noteq> VStr k) ks) (set_prop eng n pn v) w1" for v w1
        by (rule Cons.IH) (simp add: keeps Cons.prems)
      from ne VStr show ?thesis
        by (simp add: as_String_def index_filter_other step Cons.IH [OF Cons.prems]
            cong: if_cong)
    qed (simp_all add: as_String_def)
  qed
qed

lemma create_node_of_type_class:
  "create_node_of_type eng t = Inr (Some n) \<Longrightarrow> node_class n = t"
  by (auto simp: create_node_of_type_def Node_new_def
      split: if_splits option.splits instance_kind.splits)

lemma set_name_class [simp]: "node_class (set_name eng n s) = node_class n"
  by (simp add: set_name_def)

lemma eq_bind: "(\<And>x. m = Inr x \<Longrightarrow> f x = g x) \<Longrightarrow> bindE m f = bindE m g"
  by (cases m) simp_all

lemma eq_if: "(c \<Longrightarrow> a = a') \<Longrightarrow> (\<not> c \<Longrightarrow> b = b') \<Longrightarrow> (if c then a else b) = (if c then a' else b')"
  by simp

lemma eq_option:
  "(x = None \<Longrightarrow> a = a') \<Longrightarrow> (\<And>y. x = Some y \<Longrightarrow> f y = g y)
   \<Longrightarrow> (case x of None \<Rightarrow> a | Some y \<Rightarrow> f y) = (case x of None \<Rightarrow> a' | Some y \<Rightarrow> g y)"
  by (cases x) simp_all

lemma eq_prod:
  "(\<And>a b. x = (a, b) \<Longrightarrow> f a b = g a b)
   \<Longrightarrow> (case x of (a, b) \<Rightarrow> f a b) = (case x of (a, b) \<Rightarrow> g a b)"
  by (cases x) simp

lemma dict_get_other:
  "key \<noteq> key' \<Longrightarrow> dict_get ((key', v) # d) key dflt = dict_get d key dflt"
  by (simp add: dict_get_def)

lemma dict_get_first: "dict_get ((key, v) # d) key dflt = v"
  by (simp add: dict_get_def)

lemma add_node_skips_unexposed:
  assumes unexposed:
      "\<And>n. node_class n = type_name \<Longrightarrow>
          get_prop eng n k = VNull \<and> k \<notin> set (property_names eng n)"
    and keeps: "\<And>n p v. node_class (set_prop eng n p v) = node_class n"
    and ty: "dict_get params ''node_type'' (VStr ''Node'') = VStr type_name"
    and props: "dict_get params ''properties'' (VDict []) = VDict ps"
  shows "add_node eng params w
         = add_node eng ((''properties'', VDict (filter (\<lambda>kv. fst kv \<noteq> k) ps)) # params) w"
proof -
  let ?ps' = "filter (\<lambda>kv. fst kv \<noteq> k) ps"
  let ?params' = "(''properties'', VDict ?ps') # params"
  have g: "dict_get ?params' ''scene_path'' d = dict_get params ''scene_path'' d"
    "dict_get ?params' ''parent_path'' d = dict_get params ''parent_path'' d"
    "dict_get ?params' ''node_type'' d = dict_get params ''node_type'' d"
    "dict_get ?params' ''node_name'' d = dict_get params ''node_name'' d"
    "dict_get ?params' ''properties'' d = VDict ?ps'" for d
    by (simp_all add: dict_get_def)
  have keys: "filter (\<lambda>x. x \<noteq> VStr k) (map (\<lambda>kv. VStr (fst kv)) ps)
              = map (\<lambda>kv. VStr (fst kv)) ?ps'"
    by (induction ps) auto
  have loop: "add_node_properties eng (VDict ps) (map (\<lambda>kv. VStr (fst kv)) ps) n w1
              = add_node_properties eng (VDict ?ps') (map (\<lambda>kv. VStr (fst kv)) ?ps') n w1"
    if "node_class n = type_name" for n w1
    using add_node_properties_skip [where eng = eng and c = type_name and k = k and n = n
        and ps = ps and ks = "map (\<lambda>kv. VStr (fst kv)) ps" and w = w1, OF unexposed keeps that]
    by (simp add: keys)
  show ?thesis
    unfolding add_node_def Let_def g props ty
    apply (intro eq_bind eq_if eq_option eq_prod refl)
    apply (simp add: iterate_def as_String_def)
    apply (frule create_node_of_type_class)
    apply (simp add: loop)
    done
qed

lemma modify_node_properties_total:
  assumes "\<forall>k \<in> set ks. \<exists>key raw v. k = VStr key \<and> index properties k = Inr raw
                \<and> convert_property_value eng raw = Inr v"
  shows "\<exists>n' w'. modify_node_properties eng properties ks n w acc = Inr (n', w', acc @ ks)
           \<and> (\<exists>evs. trace w' = trace w @ evs
                 \<and> (\<forall>k \<in> set ks. \<exists>key v. k = VStr key \<and> SetProp key v \<in> set evs))"
  using assms
proof (induction ks arbitrary: n w acc)
  case Nil
  then show ?case by simp
next
  case (Cons k ks)
  from Cons.prems obtain key raw v where k: "k = VStr key"
    and raw: "index properties k = Inr raw" and v: "convert_property_value eng raw = Inr v"
    by auto
  from Cons.prems have "\<forall>k \<in> set ks. \<exists>key raw v. k = VStr key \<and> index properties k = Inr raw
                \<and> convert_property_value eng raw = Inr v" by simp
  from Cons.IH [OF this, of "set_prop eng n key v" "emit (SetProp key v) w" "acc @ [k]"]
  obtain n' w' evs where
    run: "modify_node_properties eng properties ks (set_prop eng n key v)
            (emit (SetProp key v) w) (acc @ [k]) = Inr (n', w', (acc @ [k]) @ ks)"
    and tr: "trace w' = trace (emit (SetProp key v) w) @ evs"
    and all: "\<forall>k \<in> set ks. \<exists>key v. k = VStr key \<and> SetProp key v \<in> set evs"
    by blast
  from run k raw v
  have "modify_node_properties eng properties (k # ks) n w acc = Inr (n', w', acc @ k # ks)"
    by (simp add: as_String_def)
  moreover from tr have "trace w' = trace w @ (SetProp key v # evs)"
    by (simp add: emit_def)
  moreover from all k
  have "\<forall>x \<in> set (k # ks). \<exists>key' v'. x = VStr key' \<and> SetProp key' v' \<in> set (SetProp key v # evs)"
    by auto
  ultimately show ?case by blast
qed

lemma modify_node_reports_success:
  assumes sp: "dict_get params ''scene_path'' (VStr []) = VStr path" and "path \<noteq> []"
    and np: "dict_get params ''node_path'' (VStr []) = VStr target" and "target \<noteq> []"
    and scene: "files w path = Some (SceneFile (Some scene_root))"
    and found: "target = ''.'' \<or> get_node_or_null eng scene_root target \<noteq> None"
    and props: "dict_get params ''properties'' (VDict []) = VDict ps"
    and conv: "\<forall>kv \<in> set ps. \<exists>raw v. map_of ps (fst kv) = Some raw
                 \<and> convert_property_value eng raw = Inr v"
    and save: "\<forall>w1. save_error eng w1 path = 0"
  shows "\<exists>w'. modify_node eng params w
           = Inr ([(''success'', VBool True),
                   (''message'', VStr (''Modified properties on '' @ target)),
                   (''modified_properties'', VArr (map (\<lambda>kv. VStr (fst kv)) ps))], w')
         \<and> (\<forall>kv \<in> set ps. \<exists>v. SetProp (fst kv) v \<in> set (new_events w w'))"
proof -
  from found obtain pos node
    where node: "(if target \<noteq> ''.'' then get_node_or_null eng scene_root target
                  else Some ([], scene_root)) = Some (pos, node)"
    by (cases "target = ''.''") auto
  from conv have "\<forall>k \<in> set (map (\<lambda>kv. VStr (fst kv)) ps). \<exists>key raw v. k = VStr key
      \<and> index (VDict ps) k = Inr raw \<and> convert_property_value eng raw = Inr v"
    by (auto simp: index_def)
  from modify_node_properties_total [OF this, of node "emit (Load path) w" "[]"]
  obtain n' w2 evs where
    run: "modify_node_properties eng (VDict ps) (map (\<lambda>kv. VStr (fst kv)) ps) node
            (emit (Load path) w) [] = Inr (n', w2, map (\<lambda>kv. VStr (fst kv)) ps)"
    and tr: "trace w2 = trace (emit (Load path) w) @ evs"
    and all: "\<forall>k \<in> set (map (\<lambda>kv. VStr (fst kv)) ps). \<exists>key v. k = VStr key \<and> SetProp key v \<in> set evs"
    by auto
  let ?w' = "snd (pack_and_save eng (update_at (\<lambda>old. n') scene_root pos) path w2)"
  have res: "modify_node eng params w
           = Inr ([(''success'', VBool True),
                   (''message'', VStr (''Modified properties on '' @ target)),
                   (''modified_properties'', VArr (map (\<lambda>kv. VStr (fst kv)) ps))], ?w')"
    using assms(2,4) scene node run save
    by (simp add: modify_node_def sp np props is_empty_or_def is_empty_def as_String_def
        load_PackedScene_def instantiate_def iterate_def pack_and_save_def
        ResourceSaver_save_def Let_def del: fun_upd_apply)
  have "trace ?w' = trace w @ [Load path] @ evs @ [Save path]"
    using tr save by (simp add: pack_and_save_def ResourceSaver_save_def Let_def emit_def)
  then have "new_events w ?w' = [Load path] @ evs @ [Save path]"
    by (simp add: new_events_def)
  with all have "\<forall>kv \<in> set ps. \<exists>v. SetProp (fst kv) v \<in> set (new_events w ?w')"
    by auto
  with res show ?thesis by blast
qed

text \<open>
  C4, as the script has it. When no node of the requested type exposes the key \<open>k\<close>
  (\<^verbatim>\<open>get\<close> gives null for it and the property list does not have it; \<^verbatim>\<open>set\<close> leaves the
  class of a node alone), \<^verbatim>\<open>add_node\<close> has the outcome, result and project, of the same
  request without that key: the key is skipped in silence. \<^verbatim>\<open>modify_node\<close> calls \<^verbatim>\<open>set\<close>
  for every requested key, asks nothing about the key and does not look at what \<^verbatim>\<open>set\<close>
  did: when the scene loads, the node is found, the values convert and the save
  succeeds, it reports success and lists every requested key in
  \<^verbatim>\<open>modified_properties\<close>, exposed or not.
\<close>

theorem unknown_property_policy:
  "((\<forall>n. node_class n = type_name \<longrightarrow>
         get_prop eng n k = VNull \<and> k \<notin> set (property_names eng n))
     \<and> (\<forall>n p v. node_class (set_prop eng n p v) = node_class n)
     \<and> dict_get params ''node_type'' (VStr ''Node'') = VStr type_name
     \<and> dict_get params ''properties'' (VDict []) = VDict ps
    \<longrightarrow> add_node eng params w
        = add_node eng ((''properties'', VDict (filter (\<lambda>kv. fst kv \<noteq> k) ps)) # params) w)
   \<and> (dict_get mparams ''scene_path'' (VStr []) = VStr path \<and> path \<noteq> []
      \<and> dict_get mparams ''node_path'' (VStr []) = VStr target \<and> target \<noteq> []
      \<and> files mw path = Some (SceneFile (Some scene_root))
      \<and> (target = ''.'' \<or> get_node_or_null eng scene_root target \<noteq> None)
      \<and> dict_get mparams ''properties'' (VDict []) = VDict mps
      \<and> (\<forall>kv \<in> set mps. \<exists>raw v. map_of mps (fst kv) = Some raw
              \<and> convert_property_value eng raw = Inr v)
      \<and> (\<forall>w1. save_error eng w1 path = 0)
    \<longrightarrow> (\<exists>w'. modify_node eng mparams mw
              = Inr ([(''success'', VBool True),
                      (''message'', VStr (''Modified properties on '' @ target)),
                      (''modified_properties'', VArr (map (\<lambda>kv. VStr (fst kv)) mps))], w')
            \<and> (\<forall>kv \<in> set mps. \<exists>v. SetProp (fst kv) v \<in> set (new_events mw w'))))"
proof (intro conjI impI)
  assume "(\<forall>n. node_class n = type_name \<longrightarrow>
             get_prop eng n k = VNull \<and> k \<notin> set (property_names eng n))
          \<and> (\<forall>n p v. node_class (set_prop eng n p v) = node_class n)
          \<and> dict_get params ''node_type'' (VStr ''Node'') = VStr type_name
          \<and> dict_get params ''properties'' (VDict []) = VDict ps"
  then show "add_node eng params w
      = add_node eng ((''properties'', VDict (filter (\<lambda>kv. fst kv \<noteq> k) ps)) # params) w"
    by (intro add_node_skips_unexposed) auto
next
  assume "dict_get mparams ''scene_path'' (VStr []) = VStr path \<and> path \<noteq> []
      \<and> dict_get mparams ''node_path'' (VStr []) = VStr target \<and> target \<noteq> []
      \<and> files mw path = Some (SceneFile (Some scene_root))
      \<and> (target = ''.'' \<or> get_node_or_null eng scene_root target \<noteq> None)
      \<and> dict_get mparams ''properties'' (VDict []) = VDict mps
      \<and> (\<forall>kv \<in> set mps. \<exists>raw v. map_of mps (fst kv) = Some raw
              \<and> convert_property_value eng raw = Inr v)
      \<and> (\<forall>w1. save_error eng w1 path = 0)"
  then show "\<exists>w'. modify_node eng mparams mw
              = Inr ([(''success'', VBool True),
                      (''message'', VStr (''Modified properties on '' @ target)),
                      (''modified_properties'', VArr (map (\<lambda>kv. VStr (fst kv)) mps))], w')
            \<and> (\<forall>kv \<in> set mps. \<exists>v. SetProp (fst kv) v \<in> set (new_events mw w'))"
    by (intro modify_node_reports_success) blast+
qed

theorem unknown_property_policy_witness:
  "add_node demo_engine
     [(''scene_path'', VStr ''res://main.tscn''), (''node_type'', VStr ''Sprite2D''),
      (''node_name'', VStr ''Coin''), (''properties'', VDict [(''bogus'', VNum 1)])] demo_world
   = add_node demo_engine
     [(''properties'', VDict []),
      (''scene_path'', VStr ''res://main.tscn''), (''node_type'', VStr ''Sprite2D''),
      (''node_name'', VStr ''Coin''), (''properties'', VDict [(''bogus'', VNum 1)])] demo_world
   \<and> map_sum id fst (modify_node demo_engine
         [(''scene_path'', VStr ''res://main.tscn''), (''node_path'', VStr ''Hero''),
          (''properties'', VDict [(''bogus'', VNum 1)])] demo_world)
     = Inr [(''success'', VBool True), (''message'', VStr ''Modified properties on Hero''),
            (''modified_properties'', VArr [VStr ''bogus''])]"
proof -
  have a: "(\<forall>n. node_class n = ''Sprite2D'' \<longrightarrow>
              get_prop demo_engine n ''bogus'' = VNull
              \<and> ''bogus'' \<notin> set (property_names demo_engine n))
     \<and> (\<forall>n p v. node_class (set_prop demo_engine n p v) = node_class n)
     \<and> dict_get [(''scene_path'', VStr ''res://main.tscn''), (''node_type'', VStr ''Sprite2D''),
           (''node_name'', VStr ''Coin''), (''properties'', VDict [(''bogus'', VNum 1)])]
          ''node_type'' (VStr ''Node'') = VStr ''Sprite2D''
     \<and> dict_get [(''scene_path'', VStr ''res://main.tscn''), (''node_type'', VStr ''Sprite2D''),
           (''node_name'', VStr ''Coin''), (''properties'', VDict [(''bogus'', VNum 1)])]
          ''properties'' (VDict []) = VDict [(''bogus'', VNum 1)]"
    by (simp add: demo_engine_def demo_properties_def dict_get_def)
  have b: "dict_get [(''scene_path'', VStr ''res://main.tscn''), (''node_path'', VStr ''Hero''),
             (''properties'', VDict [(''bogus'', VNum 1)])] ''scene_path'' (VStr [])
           = VStr ''res://main.tscn'' \<and> ''res://main.tscn'' \<noteq> []
      \<and> dict_get [(''scene_path'', VStr ''res://main.tscn''), (''node_path'', VStr ''Hero''),
             (''properties'', VDict [(''bogus'', VNum 1)])] ''node_path'' (VStr [])
           = VStr ''Hero'' \<and> ''Hero'' \<noteq> []
      \<and> files demo_world ''res://main.tscn'' = Some (SceneFile (Some demo_scene))
      \<and> (''Hero'' = ''.'' \<or> get_node_or_null demo_engine demo_scene ''Hero'' \<noteq> None)
      \<and> dict_get [(''scene_path'', VStr ''res://main.tscn''), (''node_path'', VStr ''Hero''),
             (''properties'', VDict [(''bogus'', VNum 1)])] ''properties'' (VDict [])
           = VDict [(''bogus'', VNum 1)]
      \<and> (\<forall>kv \<in> set [(''bogus'', VNum 1)]. \<exists>raw v. map_of [(''bogus'', VNum 1)] (fst kv) = Some raw
              \<and> convert_property_value demo_engine raw = Inr v)
      \<and> (\<forall>w1. save_error demo_engine w1 ''res://main.tscn'' = 0)"
    by (simp add: dict_get_def demo_world_def get_node_or_null_def demo_engine_def demo_scene_def
        convert_property_value_def)
  from unknown_property_policy [where eng = demo_engine and type_name = "''Sprite2D''"
      and k = "''bogus''" and ps = "[(''bogus'', VNum 1)]" and w = demo_world
      and params = "[(''scene_path'', VStr ''res://main.tscn''), (''node_type'', VStr ''Sprite2D''),
           (''node_name'', VStr ''Coin''), (''properties'', VDict [(''bogus'', VNum 1)])]",
      THEN conjunct1, rule_format, OF a]
    unknown_property_policy [where eng = demo_engine and path = "''res://main.tscn''"
      and target = "''Hero''" and mps = "[(''bogus'', VNum 1)]" and mw = demo_world
      and scene_root = demo_scene
      and mparams = "[(''scene_path'', VStr ''res://main.tscn''), (''node_path'', VStr ''Hero''),
             (''properties'', VDict [(''bogus'', VNum 1)])]",
      THEN conjunct2, rule_format, OF b]
  show ?thesis by auto
qed

text \<open>
  C4 as stated fails in its last part: with the key \<^verbatim>\<open>bogus\<close>, which a Sprite2D does not
  expose, \<^verbatim>\<open>add_node\<close> succeeds and \<^verbatim>\<open>modify_node\<close> on a Sprite2D succeeds as well, with
  \<^verbatim>\<open>bogus\<close> among the modified properties.
\<close>

theorem modify_node_unknown_key_succeeds:
  "get_prop demo_engine (Node ''Hero'' ''Sprite2D'' [] None [] []) ''bogus'' = VNull
   \<and> ''bogus'' \<notin> set (property_names demo_engine (Node ''Hero'' ''Sprite2D'' [] None [] []))
   \<and> map_sum id fst (add_node demo_engine
         [(''scene_path'', VStr ''res://main.tscn''), (''node_type'', VStr ''Sprite2D''),
          (''node_name'', VStr ''Coin''), (''properties'', VDict [(''bogus'', VNum 1)])]
         demo_world)
     = Inr [(''success'', VBool True),
            (''message'', VStr (''Added Sprite2D node '' @ quote @ ''Coin'' @ quote @ '' to .'')),
            (''node_path'', VStr ''Coin'')]
   \<and> map_sum id fst (modify_node demo_engine
         [(''scene_path'', VStr ''res://main.tscn''), (''node_path'', VStr ''Hero''),
          (''properties'', VDict [(''bogus'', VNum 1)])] demo_world)
     = Inr [(''success'', VBool True), (''message'', VStr ''Modified properties on Hero''),
            (''modified_properties'', VArr [VStr ''bogus''])]"
  by (simp add: add_node_def modify_node_def dict_get_def is_empty_or_def is_empty_def
      as_String_def load_PackedScene_def demo_world_def instantiate_def get_node_or_null_def
      create_node_of_type_def node_types_def Node_new_def set_name_def
      iterate_def index_def demo_engine_def demo_properties_def demo_scene_def
      convert_property_value_def add_child_def
      with_children_def pack_and_save_def ResourceSaver_save_def pack_def emit_def)

end
